theory Spec2Isabelle
  imports Complex_Main "HOL-Library.AList"
begin

section \<open>Python values, dictionaries and exceptions\<close>

text \<open>
  The program exchanges JSON documents and keeps its results in Python dictionaries.
  Both are modelled by one datatype of values: \<open>JNull\<close> is Python's \<open>None\<close>,
  \<open>JInt\<close> an unbounded Python \<open>int\<close>, \<open>JFloat\<close> a Python \<open>float\<close> read as the
  real number it denotes (no rounding, no infinities, no NaN), \<open>JObj\<close> a \<open>dict\<close> with
  string keys in insertion order.
\<close>

datatype json =
    JNull
  | JBool bool
  | JInt int
  | JFloat real
  | JStr string
  | JArr "json list"
  | JObj "(string \<times> json) list"

type_synonym dict = "(string \<times> json) list"

text \<open>The exceptions the modelled code raises or meets, each with its message.\<close>

datatype exn =
    TimeoutError string
  | EOFError string
  | KeyError string
  | ValueError string
  | TypeError string
  | AttributeError string
  | OverflowError string
  | OSError string
  | RuntimeError string
  | JSONDecodeError string
  | ZeroDivisionError string
  | AssertionError string

definition quoted :: "string \<Rightarrow> string" where
  "quoted s = [CHR 0x27] @ s @ [CHR 0x27]"

text \<open>\<open>repr(e)\<close>: the class name and the quoted message (quotes inside the message are
  not escaped here).\<close>

fun exn_repr :: "exn \<Rightarrow> string" where
  "exn_repr (TimeoutError m) = ''TimeoutError('' @ quoted m @ '')''"
| "exn_repr (EOFError m) = ''EOFError('' @ quoted m @ '')''"
| "exn_repr (KeyError m) = ''KeyError('' @ quoted m @ '')''"
| "exn_repr (ValueError m) = ''ValueError('' @ quoted m @ '')''"
| "exn_repr (TypeError m) = ''TypeError('' @ quoted m @ '')''"
| "exn_repr (AttributeError m) = ''AttributeError('' @ quoted m @ '')''"
| "exn_repr (OverflowError m) = ''OverflowError('' @ quoted m @ '')''"
| "exn_repr (OSError m) = ''OSError('' @ quoted m @ '')''"
| "exn_repr (RuntimeError m) = ''RuntimeError('' @ quoted m @ '')''"
| "exn_repr (JSONDecodeError m) = ''JSONDecodeError('' @ quoted m @ '')''"
| "exn_repr (ZeroDivisionError m) = ''ZeroDivisionError('' @ quoted m @ '')''"
| "exn_repr (AssertionError m) = ''AssertionError('' @ quoted m @ '')''"

subsection \<open>Decimal rendering of integers\<close>

definition digit_char :: "nat \<Rightarrow> char" where
  "digit_char n = ''0123456789'' ! n"

fun nat_dec :: "nat \<Rightarrow> string" where
  "nat_dec n = (if n < 10 then [digit_char n] else nat_dec (n div 10) @ [digit_char (n mod 10)])"

declare nat_dec.simps [simp del]

definition int_dec :: "int \<Rightarrow> string" where
  "int_dec i = (if i < 0 then ''-'' @ nat_dec (nat (- i)) else nat_dec (nat i))"

subsection \<open>Truthiness, \<open>str\<close>, \<open>dict.get\<close>\<close>

text \<open>\<open>bool(v)\<close>, as \<open>if v\<close>, \<open>not v\<close>, \<open>a or b\<close> and \<open>all(...)\<close> use it.\<close>

fun py_truthy :: "json \<Rightarrow> bool" where
  "py_truthy JNull = False"
| "py_truthy (JBool b) = b"
| "py_truthy (JInt i) = (i \<noteq> 0)"
| "py_truthy (JFloat r) = (r \<noteq> 0)"
| "py_truthy (JStr s) = (s \<noteq> [])"
| "py_truthy (JArr xs) = (xs \<noteq> [])"
| "py_truthy (JObj kvs) = (kvs \<noteq> [])"

text \<open>
  \<open>str(v)\<close>. The text of a float or of a container is left to the runtime: the first
  argument is that rendering (\<open>repr\<close>), a parameter of the model.
\<close>

fun py_str :: "(json \<Rightarrow> string) \<Rightarrow> json \<Rightarrow> string" where
  "py_str rp JNull = ''None''"
| "py_str rp (JBool b) = (if b then ''True'' else ''False'')"
| "py_str rp (JInt i) = int_dec i"
| "py_str rp (JStr s) = s"
| "py_str rp v = rp v"

text \<open>\<open>d.get(k)\<close> and \<open>d.get(k, default)\<close> on a dictionary.\<close>

definition dict_get :: "dict \<Rightarrow> string \<Rightarrow> json" where
  "dict_get d k = (case map_of d k of None \<Rightarrow> JNull | Some v \<Rightarrow> v)"

definition dict_get_or :: "dict \<Rightarrow> string \<Rightarrow> json \<Rightarrow> json" where
  "dict_get_or d k dflt = (case map_of d k of None \<Rightarrow> dflt | Some v \<Rightarrow> v)"



text \<open>\<open>isinstance(v, (int, float))\<close>; a Python \<open>bool\<close> is an \<open>int\<close>. The second
  function is \<open>float(v)\<close> on such a value.\<close>

fun is_number :: "json \<Rightarrow> bool" where
  "is_number (JInt i) = True"
| "is_number (JFloat r) = True"
| "is_number (JBool b) = True"
| "is_number v = False"

fun number_value :: "json \<Rightarrow> real" where
  "number_value (JInt i) = of_int i"
| "number_value (JFloat r) = r"
| "number_value (JBool b) = (if b then 1 else 0)"
| "number_value v = 0"

subsection \<open>Numbers\<close>

text \<open>
  A Python \<open>float\<close> is read as a real number; of the arithmetic of doubles only the
  failure of a conversion is kept: \<open>a / b\<close> on two \<open>int\<close>s and \<open>float(a)\<close> raise
  \<open>OverflowError\<close> when the correctly rounded result is no finite double, that is from
  \<open>2^1024 - 2^970\<close> on.
\<close>

definition dbl_overflow :: real where
  "dbl_overflow = 2 ^ 1024 - 2 ^ 970"

definition py_truediv :: "int \<Rightarrow> int \<Rightarrow> exn + real" where
  "py_truediv a b =
     (if b = 0 then Inl (ZeroDivisionError ''division by zero'')
      else if dbl_overflow \<le> \<bar>of_int a / of_int b\<bar>
        then Inl (OverflowError ''integer division result too large for a float'')
      else Inr (of_int a / of_int b))"

definition py_float_of_int :: "int \<Rightarrow> exn + real" where
  "py_float_of_int a =
     (if dbl_overflow \<le> \<bar>of_int a\<bar> then Inl (OverflowError ''int too large to convert to float'')
      else Inr (of_int a))"

text \<open>
  A tensor made by \<open>torch.tensor\<close> from Python floats holds single-precision numbers.
  \<open>to_float32 x\<close> is the value such a tensor holds for \<open>x\<close>: the nearest number with a
  significand of 24 bits, a tie going to the even significand; below \<open>2^-126\<close> the
  spacing stays \<open>2^-149\<close>. The overflow to infinity above \<open>2^128\<close> is not modelled.
\<close>

definition round_half_even :: "real \<Rightarrow> int" where
  "round_half_even r =
     (let f = \<lfloor>r\<rfloor> in
      if r - of_int f < 1 / 2 then f
      else if 1 / 2 < r - of_int f then f + 1
      else if even f then f else f + 1)"

definition pow2 :: "int \<Rightarrow> real" where
  "pow2 i = (if 0 \<le> i then 2 ^ nat i else 1 / 2 ^ nat (- i))"

definition to_float32 :: "real \<Rightarrow> real" where
  "to_float32 x =
     (if x = 0 then 0
      else (let q = pow2 (max \<lfloor>log 2 \<bar>x\<bar>\<rfloor> (- 126) - 23)
            in q * of_int (round_half_even (x / q))))"

text \<open>\<open>int(v)\<close>. The reading of a string is the runtime's (first argument); a float is
  truncated towards zero.\<close>

fun py_int :: "(string \<Rightarrow> int option) \<Rightarrow> json \<Rightarrow> exn + int" where
  "py_int rd (JInt i) = Inr i"
| "py_int rd (JBool b) = Inr (if b then 1 else 0)"
| "py_int rd (JFloat r) = Inr (if 0 \<le> r then \<lfloor>r\<rfloor> else \<lceil>r\<rceil>)"
| "py_int rd (JStr s) =
     (case rd s of None \<Rightarrow> Inl (ValueError ''invalid literal for int() with base 10'')
      | Some i \<Rightarrow> Inr i)"
| "py_int rd v = Inl (TypeError ''int() argument must be a string, a bytes-like object or a real number'')"

text \<open>\<open>v.get(k, default)\<close> on a value that need not be a dictionary.\<close>

fun py_get :: "json \<Rightarrow> string \<Rightarrow> json \<Rightarrow> exn + json" where
  "py_get (JObj d) k dflt = Inr (dict_get_or d k dflt)"
| "py_get v k dflt = Inl (AttributeError ''object has no attribute get'')"

text \<open>\<open>float(v)\<close> on a value of any kind.\<close>

fun py_float :: "json \<Rightarrow> exn + real" where
  "py_float (JInt i) = py_float_of_int i"
| "py_float (JFloat r) = Inr r"
| "py_float (JBool b) = Inr (if b then 1 else 0)"
| "py_float v = Inl (TypeError ''float() argument must be a string or a real number'')"

text \<open>\<open>a or b\<close> on two strings.\<close>

definition str_or :: "string \<Rightarrow> string \<Rightarrow> string" where
  "str_or a b = (if a \<noteq> [] then a else b)"

text \<open>Sequencing of steps that may raise: the first exception ends the sequence.\<close>

definition ebind :: "exn + 'a \<Rightarrow> ('a \<Rightarrow> exn + 'b) \<Rightarrow> exn + 'b" where
  "ebind x f = (case x of Inl e \<Rightarrow> Inl e | Inr v \<Rightarrow> f v)"

section \<open>The machine of a node\<close>

text \<open>
  What \<open>torch\<close> does on this machine during one collective test: the exception the
  import raises, if any; the CUDA queries; \<open>init_group rank world_size timeout\<close>, the
  exception that selecting the device, building the timeout or
  \<open>init_process_group\<close> raises, if any; \<open>all_reduce x\<close>, the reduced scalar the group
  computes for the contribution \<open>x\<close>, or the exception (the float32 tensor then holds
  that scalar rounded to single precision); the barrier; and the value of
  \<open>round(time.time() - start_time, 3)\<close> when the test returns.
\<close>

record torch_env =
  import_torch :: "exn option"
  cuda_is_available :: bool
  cuda_device_count :: int
  init_group :: "int \<Rightarrow> int \<Rightarrow> int \<Rightarrow> exn option"
  all_reduce :: "real \<Rightarrow> exn + real"
  barrier :: "exn option"
  elapsed :: real

text \<open>The result of one \<open>subprocess.run\<close>: completed with a status and its two
  outputs, command not found, timed out (with the outputs, when they are strings), or
  another failure.\<close>

datatype run_outcome =
    Completed int string string
  | FileNotFound string
  | TimeoutExpired "string option" "string option"
  | RunFailure exn

section \<open>The bandwidth listener manager\<close>

text \<open>
  A listener process started by \<open>subprocess.Popen\<close>: whether it exits within the time
  \<open>communicate\<close> is given, its exit status and what it wrote.
\<close>

record proc =
  exits_in_time :: bool
  returncode :: int
  proc_stdout :: string
  proc_stderr :: string

text \<open>
  The machine a node runs on. The first five fields are the Python runtime where the
  model does not spell it out: the text of a float or container, \<open>int(s)\<close> on a string,
  \<open>json.loads\<close>, \<open>str.strip\<close> and \<open>str.splitlines\<close>. \<open>subprocess_run k argv\<close> is the
  result of the \<open>k\<close>-th call of \<open>subprocess.run\<close>, with the command \<open>argv\<close>, and
  \<open>popen k argv\<close> what the \<open>k\<close>-th call of \<open>subprocess.Popen\<close> does (a process, or the
  exception it raises); \<open>runs\<close> and \<open>spawned\<close> count the calls made so far.
\<close>

record machine =
  py_repr :: "json \<Rightarrow> string"
  str_to_int :: "string \<Rightarrow> int option"
  json_loads :: "string \<Rightarrow> json option"
  str_strip :: "string \<Rightarrow> string"
  str_splitlines :: "string \<Rightarrow> string list"
  gethostname :: string
  torch :: torch_env
  subprocess_run :: "nat \<Rightarrow> string list \<Rightarrow> run_outcome"
  runs :: nat
  popen :: "nat \<Rightarrow> string list \<Rightarrow> exn + proc"
  spawned :: nat

record manager =
  label :: string
  servers :: "int \<rightharpoonup> proc"

definition IperfServerManager_init :: "string \<Rightarrow> manager" where
  "IperfServerManager_init l = \<lparr>label = l, servers = Map.empty\<rparr>"

definition IperfServerManager_start ::
  "machine \<Rightarrow> manager \<Rightarrow> int \<Rightarrow> dict \<times> machine \<times> manager" where
  "IperfServerManager_start mc mgr port =
     (if servers mgr port \<noteq> None then
        ([(''ok'', JBool False),
          (''error'', JStr (''iperf3 server already exists on port '' @ int_dec port))], mc, mgr)
      else
        (case popen mc (spawned mc) [''iperf3'', ''-s'', ''-1'', ''-p'', int_dec port, ''-J''] of
           Inl e \<Rightarrow>
             ([(''ok'', JBool False), (''error'', JStr (exn_repr e))],
              mc\<lparr>spawned := Suc (spawned mc)\<rparr>, mgr)
         | Inr p \<Rightarrow>
             ([(''ok'', JBool True)],
              mc\<lparr>spawned := Suc (spawned mc)\<rparr>,
              mgr\<lparr>servers := (servers mgr)(port \<mapsto> p)\<rparr>)))"

definition IperfServerManager_wait :: "manager \<Rightarrow> int \<Rightarrow> int \<Rightarrow> dict \<times> manager" where
  "IperfServerManager_wait mgr port timeout_seconds =
     (case servers mgr port of
        None \<Rightarrow>
          ([(''ok'', JBool False),
            (''error'', JStr (''iperf3 server not found on port '' @ int_dec port))], mgr)
      | Some p \<Rightarrow>
          (let mgr' = mgr\<lparr>servers := (servers mgr)(port := None)\<rparr> in
           if \<not> exits_in_time p then
             ([(''ok'', JBool False), (''returncode'', JInt 124),
               (''stdout'', JStr (proc_stdout p)),
               (''stderr'', JStr (proc_stderr p @ '' timeout''))], mgr')
           else
             ([(''ok'', JBool (returncode p = 0)), (''returncode'', JInt (returncode p)),
               (''stdout'', JStr (proc_stdout p)),
               (''stderr'', JStr (proc_stderr p))], mgr')))"


section \<open>Running the bandwidth tool\<close>

definition run_command ::
  "machine \<Rightarrow> string list \<Rightarrow> int \<Rightarrow> (int \<times> string \<times> string) \<times> machine" where
  "run_command mc cmd timeout =
     (let mc' = mc\<lparr>runs := Suc (runs mc)\<rparr> in
      case subprocess_run mc (runs mc) cmd of
        Completed rc out err \<Rightarrow> ((rc, str_strip mc out, str_strip mc err), mc')
      | FileNotFound m \<Rightarrow> ((127, [], m), mc')
      | TimeoutExpired out err \<Rightarrow>
          (let out' = (case out of None \<Rightarrow> [] | Some t \<Rightarrow> str_strip mc t);
               err' = (case err of None \<Rightarrow> [] | Some t \<Rightarrow> str_strip mc t)
           in ((124, out', if err' = [] then ''command timeout'' else err'), mc'))
      | RunFailure e \<Rightarrow> ((1, [], exn_repr e), mc'))"

definition first_non_empty_line :: "machine \<Rightarrow> string \<Rightarrow> string" where
  "first_non_empty_line mc text =
     (case filter (\<lambda>l. l \<noteq> []) (map (str_strip mc) (str_splitlines mc text)) of
        [] \<Rightarrow> []
      | l # ls \<Rightarrow> l)"

definition check_iperf3_available :: "machine \<Rightarrow> dict \<times> machine" where
  "check_iperf3_available mc =
     (case run_command mc [''iperf3'', ''--version''] 10 of
        ((code, out, err), mc') \<Rightarrow>
          if code \<noteq> 0 then
            ([(''ok'', JBool False),
              (''detail'', JStr (str_or err (str_or out (''exit='' @ int_dec code))))], mc')
          else
            ([(''ok'', JBool True),
              (''detail'', JStr (str_or (first_non_empty_line mc out) ''iperf3 ok''))], mc'))"

text \<open>
  The throughput figures of \<open>_extract_iperf_bps\<close>. \<open>bps_of v\<close> is what one candidate
  place contributes: the \<open>bits_per_second\<close> of \<open>v\<close> when \<open>v\<close> is a dictionary and the
  entry a number. \<open>collect\<close> runs over the places in order.
\<close>

fun bps_of :: "json \<Rightarrow> exn + real list" where
  "bps_of (JObj d) =
     (let bps = dict_get d ''bits_per_second'' in
      if is_number bps then ebind (py_float bps) (\<lambda>x. Inr [x]) else Inr [])"
| "bps_of v = Inr []"

fun collect :: "('a \<Rightarrow> exn + real list) \<Rightarrow> 'a list \<Rightarrow> exn + real list" where
  "collect f [] = Inr []"
| "collect f (x # xs) = ebind (f x) (\<lambda>ys. ebind (collect f xs) (\<lambda>zs. Inr (ys @ zs)))"

text \<open>The \<open>sender\<close> and \<open>receiver\<close> of one entry of \<open>streams\<close>.\<close>

fun stream_bps :: "json \<Rightarrow> exn + real list" where
  "stream_bps (JObj item) = collect bps_of [dict_get item ''sender'', dict_get item ''receiver'']"
| "stream_bps v = collect bps_of [JNull, JNull]"

text \<open>\<open>max(candidates)\<close> on a list that is not empty.\<close>

fun list_max :: "real list \<Rightarrow> real" where
  "list_max [] = 0"
| "list_max (x # xs) = fold max xs x"

definition extract_iperf_bps :: "machine \<Rightarrow> string \<Rightarrow> exn + real option" where
  "extract_iperf_bps mc output_text =
     (case json_loads mc output_text of
        None \<Rightarrow> Inr None
      | Some data \<Rightarrow>
          ebind (py_get data ''end'' (JObj [])) (\<lambda>end.
          ebind (py_get end ''sum_received'' JNull) (\<lambda>received.
          ebind (py_get end ''sum_sent'' JNull) (\<lambda>sent.
          ebind (collect bps_of [received, sent]) (\<lambda>candidates.
            if candidates \<noteq> [] then Inr (Some (list_max candidates))
            else
              ebind (py_get end ''streams'' JNull) (\<lambda>streams.
              ebind (case streams of JArr items \<Rightarrow> collect stream_bps items | _ \<Rightarrow> Inr [])
                (\<lambda>candidates.
                   if candidates \<noteq> [] then Inr (Some (list_max candidates))
                   else Inr None)))))))"

definition run_iperf_client ::
  "machine \<Rightarrow> string \<Rightarrow> int \<Rightarrow> int \<Rightarrow> (exn + dict) \<times> machine" where
  "run_iperf_client mc target_host port duration_seconds =
     (case run_command mc
             [''iperf3'', ''-c'', target_host, ''-p'', int_dec port,
              ''-t'', int_dec duration_seconds, ''-J'']
             (duration_seconds + 30) of
        ((code, out, err), mc') \<Rightarrow>
          if code \<noteq> 0 then
            (Inr [(''ok'', JBool False),
                  (''error'', JStr (str_or err (str_or out (''exit='' @ int_dec code)))),
                  (''bps'', JNull)], mc')
          else
            (case extract_iperf_bps mc' out of
               Inl e \<Rightarrow> (Inl e, mc')
             | Inr None \<Rightarrow>
                 (Inr [(''ok'', JBool False),
                       (''error'', JStr ''cannot parse iperf3 json throughput''),
                       (''bps'', JNull)], mc')
             | Inr (Some bps) \<Rightarrow>
                 (Inr [(''ok'', JBool True), (''bps'', JFloat bps), (''error'', JStr [])], mc')))"

section \<open>The collective test runner\<close>

definition dict_set :: "dict \<Rightarrow> string \<Rightarrow> json \<Rightarrow> dict" where
  "dict_set d k v = AList.update k v d"

text \<open>
  The \<open>try\<close> block of \<open>_run_nccl_distributed\<close>, from the CUDA checks to the verdict:
  every exception raised in it is caught and its \<open>repr\<close> stored under \<open>error\<close>. The
  \<open>finally\<close> clause destroys the process group and swallows what that raises; it
  does not touch the result.
\<close>

definition nccl_try :: "machine \<Rightarrow> int \<Rightarrow> int \<Rightarrow> int \<Rightarrow> dict \<Rightarrow> dict" where
  "nccl_try mc rank world_size timeout_seconds result =
     (let env = torch mc in
      if \<not> cuda_is_available env then
        dict_set result ''error''
          (JStr (exn_repr (RuntimeError ''torch.cuda.is_available() is False'')))
      else if cuda_device_count env < 1 then
        dict_set result ''error'' (JStr (exn_repr (RuntimeError ''no CUDA GPU detected'')))
      else
        (case init_group env rank world_size timeout_seconds of
           Some e \<Rightarrow> dict_set result ''error'' (JStr (exn_repr e))
         | None \<Rightarrow>
             (case py_float_of_int rank of
                Inl e \<Rightarrow> dict_set result ''error'' (JStr (exn_repr e))
              | Inr x \<Rightarrow>
                  (case all_reduce env (to_float32 x) of
                     Inl e \<Rightarrow> dict_set result ''error'' (JStr (exn_repr e))
                   | Inr gathered \<Rightarrow>
                       (case barrier env of
                          Some e \<Rightarrow> dict_set result ''error'' (JStr (exn_repr e))
                        | None \<Rightarrow>
                            (let reduced = to_float32 gathered;
                                 result1 = dict_set result ''sum'' (JFloat reduced);
                                 expected = number_value (dict_get result1 ''expected_sum'');
                                 result2 = dict_set result1 ''ok''
                                             (JBool (\<bar>reduced - expected\<bar> < 1 / 10000))
                             in if \<not> py_truthy (dict_get result2 ''ok'') then
                                  dict_set result2 ''error''
                                    (JStr (''all_reduce sum mismatch: got=''
                                           @ py_repr mc (JFloat reduced) @ '', expected=''
                                           @ py_repr mc (dict_get result2 ''expected_sum'')))
                                else result2))))))"

definition run_nccl_distributed ::
  "machine \<Rightarrow> int \<Rightarrow> int \<Rightarrow> string \<Rightarrow> int \<Rightarrow> int \<Rightarrow> exn + dict" where
  "run_nccl_distributed mc rank world_size master_addr master_port timeout_seconds =
     (case py_truediv (world_size * (world_size - 1)) 2 of
        Inl e \<Rightarrow> Inl e
      | Inr expected \<Rightarrow>
          (let result = [(''ok'', JBool False),
                         (''rank'', JInt rank),
                         (''world_size'', JInt world_size),
                         (''hostname'', JStr (gethostname mc)),
                         (''sum'', JNull),
                         (''expected_sum'', JFloat expected),
                         (''elapsed_seconds'', JFloat 0),
                         (''error'', JStr [])]
           in case import_torch (torch mc) of
                Some e \<Rightarrow>
                  Inr (dict_set
                         (dict_set result ''error'' (JStr (''import torch failed: '' @ exn_repr e)))
                         ''elapsed_seconds'' (JFloat (elapsed (torch mc))))
              | None \<Rightarrow>
                  Inr (dict_set (nccl_try mc rank world_size timeout_seconds result)
                         ''elapsed_seconds'' (JFloat (elapsed (torch mc))))))"

definition DEFAULT_MASTER_PORT :: int where
  "DEFAULT_MASTER_PORT = 29500"

definition run_nccl_single :: "machine \<Rightarrow> exn + dict" where
  "run_nccl_single mc = run_nccl_distributed mc 0 1 ''127.0.0.1'' (DEFAULT_MASTER_PORT + 1) 60"

section \<open>The control channel\<close>

text \<open>
  What the peer and the network do to one connection, as the reader meets it:
  \<open>RxLine v\<close> is a complete line that \<open>json.loads\<close> decodes to \<open>v\<close>; \<open>RxGarbage m\<close> a
  line it rejects; \<open>RxTimeout\<close> a silence longer than any timeout in force (a read
  without timeout waits it out); \<open>RxError m\<close> a failing read. When the list is empty the
  peer has closed the stream and \<open>readline\<close> returns the empty string.
  For the writer, \<open>TxFail m\<close> makes the next \<open>send\<close> raise; an empty list means every
  further send succeeds.
\<close>

datatype rx = RxLine json | RxGarbage string | RxTimeout | RxError string

datatype tx = TxOk | TxFail string

record channel =
  sock_timeout :: "real option"
  inbox :: "rx list"
  tx_script :: "tx list"
  outbox :: "dict list"
  closed :: bool

definition JsonChannel_send :: "channel \<Rightarrow> dict \<Rightarrow> (exn + unit) \<times> channel" where
  "JsonChannel_send ch payload =
     (if closed ch then (Inl (ValueError ''I/O operation on closed file.''), ch)
      else (case tx_script ch of
              [] \<Rightarrow> (Inr (), ch\<lparr>outbox := outbox ch @ [payload]\<rparr>)
            | TxOk # rest \<Rightarrow> (Inr (), ch\<lparr>tx_script := rest, outbox := outbox ch @ [payload]\<rparr>)
            | TxFail m # rest \<Rightarrow> (Inl (OSError m), ch\<lparr>tx_script := rest\<rparr>)))"

text \<open>\<open>sock.settimeout(t)\<close>: a negative value is refused and changes nothing.\<close>

definition settimeout :: "channel \<Rightarrow> real option \<Rightarrow> exn + channel" where
  "settimeout ch t =
     (case t of
        None \<Rightarrow> Inr (ch\<lparr>sock_timeout := None\<rparr>)
      | Some s \<Rightarrow> if s < 0 then Inl (ValueError ''Timeout value out of range'')
                 else Inr (ch\<lparr>sock_timeout := Some s\<rparr>))"

text \<open>\<open>reader.readline()\<close> under the timeout in force: the line read (\<open>None\<close> for the
  empty string of a closed stream) or the exception, and what is left to read.\<close>

datatype read_result = ReadLine "json option" | ReadGarbage string | ReadTimedOut | ReadFailed exn

fun readline :: "real option \<Rightarrow> rx list \<Rightarrow> read_result \<times> rx list" where
  "readline t [] = (ReadLine None, [])"
| "readline t (RxLine v # rest) = (ReadLine (Some v), rest)"
| "readline t (RxGarbage m # rest) = (ReadGarbage m, rest)"
| "readline t (RxError m # rest) = (ReadFailed (OSError m), rest)"
| "readline t (RxTimeout # rest) =
     (case t of None \<Rightarrow> readline None rest | Some s \<Rightarrow> (ReadTimedOut, rest))"

definition JsonChannel_recv :: "channel \<Rightarrow> real option \<Rightarrow> (exn + json) \<times> channel" where
  "JsonChannel_recv ch t =
     (if closed ch then (Inl (OSError ''Bad file descriptor''), ch)
      else
        (let previous_timeout = sock_timeout ch in
         case settimeout ch t of
           Inl e \<Rightarrow> (Inl e, ch\<lparr>sock_timeout := previous_timeout\<rparr>)
         | Inr ch1 \<Rightarrow>
             (case readline (sock_timeout ch1) (inbox ch1) of
                (r, rest) \<Rightarrow>
                  (let ch2 = ch1\<lparr>inbox := rest, sock_timeout := previous_timeout\<rparr> in
                   case r of
                     ReadTimedOut \<Rightarrow> (Inl (TimeoutError ''socket read timeout''), ch2)
                   | ReadFailed e \<Rightarrow> (Inl e, ch2)
                   | ReadLine None \<Rightarrow> (Inl (EOFError ''peer closed connection''), ch2)
                   | ReadGarbage m \<Rightarrow> (Inl (JSONDecodeError m), ch2)
                   | ReadLine (Some v) \<Rightarrow> (Inr v, ch2)))))"

definition JsonChannel_close :: "channel \<Rightarrow> channel" where
  "JsonChannel_close ch = ch\<lparr>closed := True\<rparr>"

section \<open>The worker agent\<close>










text \<open>
  The loop ends: a turn that goes on has taken a message from the connection, and what
  the peer sends in one session is finite.
\<close>

lemma readline_length: "readline t xs = (r, rest) \<Longrightarrow> length rest \<le> length xs"
  by (induction t xs rule: readline.induct) (auto split: option.splits)









section \<open>The host orchestrator\<close>

text \<open>
  The world of the host: its own machine; what creating, binding and listening on the
  control socket raises, if anything; the connections \<open>listener.accept()\<close> will return,
  in order (when none is left the call blocks for good); the sockets accepted so far,
  by handle; and the operator's answers to the prompt, each already stripped and in
  lower case. \<open>printed\<close> collects the tables written to the terminal; the other lines
  printed are not modelled.
\<close>

datatype accept_event = Accepted channel string | AcceptFailed exn

text \<open>A row of the mesh report. A throughput of \<open>None\<close> is printed as \<open>N/A\<close>, any other
  with three decimals.\<close>

record mesh_row =
  row_pair :: string
  row_node_a :: string
  row_node_b :: string
  row_a_to_b :: "real option"
  row_b_to_a :: "real option"
  row_avg :: "real option"
  row_status :: string
  row_detail :: string

datatype table =
    NcclTable "json list list"
  | AvailabilityTable "json list list"
  | MeshTable "mesh_row list"

record host_world =
  host :: machine
  bind_listener :: "exn option"
  accepts :: "accept_event list"
  chans :: "nat \<Rightarrow> channel"
  next_chan :: nat
  console :: "string list"
  printed :: "table list"

record WorkerConnection =
  w_rank :: int
  w_hostname :: string
  advertised_ip :: string
  peer_ip :: string
  gpu_count :: int
  w_channel :: nat

record NodeInfo =
  n_rank :: int
  n_name :: string
  n_ip :: string
  is_host :: bool
  n_worker :: "WorkerConnection option"

text \<open>The three operations of a channel, on the socket a handle names.\<close>

definition chan_send :: "host_world \<Rightarrow> nat \<Rightarrow> dict \<Rightarrow> (exn + unit) \<times> host_world" where
  "chan_send hw c payload =
     (case JsonChannel_send (chans hw c) payload of
        (r, ch) \<Rightarrow> (r, hw\<lparr>chans := (chans hw)(c := ch)\<rparr>))"

definition chan_recv :: "host_world \<Rightarrow> nat \<Rightarrow> real option \<Rightarrow> (exn + json) \<times> host_world" where
  "chan_recv hw c t =
     (case JsonChannel_recv (chans hw c) t of
        (r, ch) \<Rightarrow> (r, hw\<lparr>chans := (chans hw)(c := ch)\<rparr>))"

definition chan_close :: "host_world \<Rightarrow> nat \<Rightarrow> host_world" where
  "chan_close hw c = hw\<lparr>chans := (chans hw)(c := JsonChannel_close (chans hw c))\<rparr>"

text \<open>The fields of a value that \<open>.get\<close> has accepted as a dictionary.\<close>

fun fields :: "json \<Rightarrow> dict" where
  "fields (JObj d) = d"
| "fields v = []"

subsection \<open>Registration\<close>

text \<open>
  The body of the registration loop for one accepted connection \<open>c\<close> with peer address
  \<open>addr\<close>: the \<open>try\<close> block and its handler, which closes the channel. The result is the
  list of workers after this connection.
\<close>

definition register_one ::
  "int \<Rightarrow> WorkerConnection list \<Rightarrow> host_world \<Rightarrow> nat \<Rightarrow> string
     \<Rightarrow> WorkerConnection list \<times> host_world" where
  "register_one cluster_size workers hw c addr =
     (case chan_recv hw c (Some 30) of
        (Inl e, hw1) \<Rightarrow> (workers, chan_close hw1 c)
      | (Inr register, hw1) \<Rightarrow>
          (case py_get register ''type'' (JStr []) of
             Inl e \<Rightarrow> (workers, chan_close hw1 c)
           | Inr t \<Rightarrow>
               if py_str (py_repr (host hw1)) t \<noteq> ''register'' then
                 (case chan_send hw1 c
                         [(''type'', JStr ''error''),
                          (''error'', JStr ''first message must be register'')] of
                    (r, hw2) \<Rightarrow> (workers, chan_close hw2 c))
               else
                 (let d = fields register;
                      rank = int (length workers) + 1;
                      hostname = py_str (py_repr (host hw1))
                                   (dict_get_or d ''hostname'' (JStr (''worker-'' @ int_dec rank)));
                      adv = str_or (py_str (py_repr (host hw1))
                                      (dict_get_or d ''advertised_ip'' (JStr []))) addr
                  in case py_int (str_to_int (host hw1)) (dict_get_or d ''gpu_count'' (JInt (- 1))) of
                       Inl e \<Rightarrow> (workers, chan_close hw1 c)
                     | Inr gpus \<Rightarrow>
                         (let worker = \<lparr>w_rank = rank, w_hostname = hostname,
                                         advertised_ip = adv, peer_ip = addr,
                                         gpu_count = gpus, w_channel = c\<rparr>;
                              workers' = workers @ [worker]
                          in case chan_send hw1 c
                                    [(''type'', JStr ''registered''), (''rank'', JInt rank),
                                     (''world_size'', JInt cluster_size)] of
                               (Inl e, hw2) \<Rightarrow> (workers', chan_close hw2 c)
                             | (Inr u, hw2) \<Rightarrow> (workers', hw2)))))"

text \<open>
  The registration loop, over the connections still to come. It is left when enough
  workers are listed, when \<open>accept\<close> raises, or never, when no connection comes.
\<close>

datatype reg_status = Registered | AcceptRaised exn | AcceptBlocks

fun register_workers ::
  "int \<Rightarrow> accept_event list \<Rightarrow> WorkerConnection list \<Rightarrow> host_world
     \<Rightarrow> reg_status \<times> WorkerConnection list \<times> host_world" where
  "register_workers cluster_size [] workers hw =
     (if int (length workers) < cluster_size - 1
      then (AcceptBlocks, workers, hw\<lparr>accepts := []\<rparr>)
      else (Registered, workers, hw\<lparr>accepts := []\<rparr>))"
| "register_workers cluster_size (ev # evs) workers hw =
     (if int (length workers) < cluster_size - 1 then
        (case ev of
           AcceptFailed e \<Rightarrow> (AcceptRaised e, workers, hw\<lparr>accepts := evs\<rparr>)
         | Accepted ch addr \<Rightarrow>
             (let c = next_chan hw;
                  hw1 = hw\<lparr>chans := (chans hw)(c := ch), next_chan := Suc c\<rparr>
              in case register_one cluster_size workers hw1 c addr of
                   (workers', hw2) \<Rightarrow> register_workers cluster_size evs workers' hw2))
      else (Registered, workers, hw\<lparr>accepts := ev # evs\<rparr>))"

subsection \<open>The collective phase\<close>

text \<open>The result that stands in for a worker whose reply is missing or of the wrong
  type. The expected sum is computed anew each time, and may overflow.\<close>

definition synthetic_result :: "WorkerConnection \<Rightarrow> int \<Rightarrow> string \<Rightarrow> exn + dict" where
  "synthetic_result worker cluster_size msg =
     ebind (py_truediv (cluster_size * (cluster_size - 1)) 2) (\<lambda>expected.
       Inr [(''ok'', JBool False),
            (''rank'', JInt (w_rank worker)),
            (''world_size'', JInt cluster_size),
            (''hostname'', JStr (w_hostname worker)),
            (''sum'', JNull),
            (''expected_sum'', JFloat expected),
            (''elapsed_seconds'', JFloat 0),
            (''error'', JStr msg)])"

text \<open>
  One turn of the loop that collects the replies: the \<open>try\<close> block reads from the
  worker's own channel and checks the type of the reply; the handler catches whatever
  the block raises. What the handler itself raises leaves the loop.
\<close>

definition collect_one ::
  "host_world \<Rightarrow> WorkerConnection \<Rightarrow> int \<Rightarrow> int \<Rightarrow> (exn + dict) \<times> host_world" where
  "collect_one hw worker cluster_size nccl_timeout_seconds =
     (case chan_recv hw (w_channel worker) (Some (of_int (nccl_timeout_seconds + 90))) of
        (r, hw1) \<Rightarrow>
          (let tried =
                 ebind r (\<lambda>response.
                 ebind (py_get response ''type'' (JStr [])) (\<lambda>t.
                   if py_str (py_repr (host hw1)) t \<noteq> ''nccl_result'' then
                     synthetic_result worker cluster_size
                       (''unexpected response: '' @ py_str (py_repr (host hw1)) response)
                   else Inr (fields response)))
           in case tried of
                Inr response \<Rightarrow> (Inr response, hw1)
              | Inl e \<Rightarrow>
                  (synthetic_result worker cluster_size (''recv failed: '' @ exn_repr e), hw1)))"

fun collect_results ::
  "host_world \<Rightarrow> WorkerConnection list \<Rightarrow> int \<Rightarrow> int \<Rightarrow> (exn + dict list) \<times> host_world" where
  "collect_results hw [] cluster_size nccl_timeout_seconds = (Inr [], hw)"
| "collect_results hw (worker # workers) cluster_size nccl_timeout_seconds =
     (case collect_one hw worker cluster_size nccl_timeout_seconds of
        (Inl e, hw1) \<Rightarrow> (Inl e, hw1)
      | (Inr response, hw1) \<Rightarrow>
          (case collect_results hw1 workers cluster_size nccl_timeout_seconds of
             (Inl e, hw2) \<Rightarrow> (Inl e, hw2)
           | (Inr responses, hw2) \<Rightarrow> (Inr (response # responses), hw2)))"

text \<open>
  The row of a worker as the specification words it, to compare the loop with: what
  the worker's own connection delivers decides. A reply of type \<open>nccl_result\<close> is the
  row; a failed receive, a reply that is no JSON object or a reply of another type
  gives a failed result under the rank and host name stored for the connection.
\<close>

definition failed_row :: "WorkerConnection \<Rightarrow> int \<Rightarrow> string \<Rightarrow> dict" where
  "failed_row worker cluster_size msg =
     [(''ok'', JBool False),
      (''rank'', JInt (w_rank worker)),
      (''world_size'', JInt cluster_size),
      (''hostname'', JStr (w_hostname worker)),
      (''sum'', JNull),
      (''expected_sum'', JFloat (of_int (cluster_size * (cluster_size - 1)) / 2)),
      (''elapsed_seconds'', JFloat 0),
      (''error'', JStr msg)]"

definition row_of_connection ::
  "(json \<Rightarrow> string) \<Rightarrow> channel \<Rightarrow> WorkerConnection \<Rightarrow> int \<Rightarrow> int \<Rightarrow> dict" where
  "row_of_connection rp ch worker cluster_size nccl_timeout_seconds =
     (case fst (JsonChannel_recv ch (Some (of_int (nccl_timeout_seconds + 90)))) of
        Inl e \<Rightarrow> failed_row worker cluster_size (''recv failed: '' @ exn_repr e)
      | Inr (JObj d) \<Rightarrow>
          if py_str rp (dict_get_or d ''type'' (JStr [])) = ''nccl_result'' then d
          else failed_row worker cluster_size (''unexpected response: '' @ rp (JObj d))
      | Inr v \<Rightarrow>
          failed_row worker cluster_size
            (''recv failed: '' @ exn_repr (AttributeError ''object has no attribute get'')))"

text \<open>
  The report: the results sorted by \<open>int(item.get("rank", 0))\<close> (the keys are computed
  first, and one that cannot be computed raises), then one row per result.
\<close>

fun rank_keys :: "(string \<Rightarrow> int option) \<Rightarrow> dict list \<Rightarrow> exn + (int \<times> dict) list" where
  "rank_keys rd [] = Inr []"
| "rank_keys rd (item # items) =
     ebind (py_int rd (dict_get_or item ''rank'' (JInt 0))) (\<lambda>k.
     ebind (rank_keys rd items) (\<lambda>rest. Inr ((k, item) # rest)))"

definition sort_by_rank :: "(string \<Rightarrow> int option) \<Rightarrow> dict list \<Rightarrow> exn + dict list" where
  "sort_by_rank rd items = ebind (rank_keys rd items) (\<lambda>keyed. Inr (map snd (sort_key fst keyed)))"

definition nccl_row :: "dict \<Rightarrow> json list" where
  "nccl_row item =
     [dict_get item ''rank'',
      dict_get item ''hostname'',
      JStr (if py_truthy (dict_get item ''ok'') then ''PASS'' else ''FAIL''),
      dict_get item ''sum'',
      dict_get item ''expected_sum'',
      dict_get item ''elapsed_seconds'',
      dict_get_or item ''error'' (JStr [])]"

text \<open>The status the session returns once the mesh phase is over.\<close>

definition exit_status :: "dict list \<Rightarrow> int" where
  "exit_status all_results =
     (if list_all (\<lambda>item. py_truthy (dict_get item ''ok'')) all_results then 0 else 2)"

section \<open>The throughput mesh tester\<close>

definition DEFAULT_IPERF_PORT_BASE :: int where
  "DEFAULT_IPERF_PORT_BASE = 5301"

definition send_and_expect ::
  "host_world \<Rightarrow> WorkerConnection \<Rightarrow> dict \<Rightarrow> int \<Rightarrow> (exn + json) \<times> host_world" where
  "send_and_expect hw worker payload timeout =
     (case chan_send hw (w_channel worker) payload of
        (Inl e, hw1) \<Rightarrow> (Inl e, hw1)
      | (Inr u, hw1) \<Rightarrow> chan_recv hw1 (w_channel worker) (Some (of_int timeout)))"

text \<open>
  A command for a node that is not the host: the assertion that the node has a worker,
  the exchange, and the first \<open>response.get\<close>, which wants a dictionary.
\<close>

definition remote_call ::
  "host_world \<Rightarrow> NodeInfo \<Rightarrow> dict \<Rightarrow> int \<Rightarrow> (exn + dict) \<times> host_world" where
  "remote_call hw nd payload timeout =
     (case n_worker nd of
        None \<Rightarrow> (Inl (AssertionError []), hw)
      | Some worker \<Rightarrow>
          (case send_and_expect hw worker payload timeout of
             (Inl e, hw1) \<Rightarrow> (Inl e, hw1)
           | (Inr (JObj d), hw1) \<Rightarrow> (Inr d, hw1)
           | (Inr v, hw1) \<Rightarrow> (Inl (AttributeError ''object has no attribute get''), hw1)))"

definition node_check_iperf :: "host_world \<Rightarrow> NodeInfo \<Rightarrow> (exn + dict) \<times> host_world" where
  "node_check_iperf hw nd =
     (if is_host nd then
        (case check_iperf3_available (host hw) of (res, mc) \<Rightarrow> (Inr res, hw\<lparr>host := mc\<rparr>))
      else
        (case remote_call hw nd [(''type'', JStr ''check_iperf3'')] 15 of
           (Inl e, hw1) \<Rightarrow> (Inl e, hw1)
         | (Inr response, hw1) \<Rightarrow>
             (Inr [(''ok'', JBool (py_truthy (dict_get response ''ok''))),
                   (''detail'', JStr (py_str (py_repr (host hw1))
                      (dict_get_or response ''detail''
                         (dict_get_or response ''error'' (JStr [])))))], hw1)))"

definition node_start_iperf_server ::
  "host_world \<Rightarrow> NodeInfo \<Rightarrow> manager \<Rightarrow> int \<Rightarrow> (exn + dict) \<times> host_world \<times> manager" where
  "node_start_iperf_server hw nd mgr port =
     (if is_host nd then
        (case IperfServerManager_start (host hw) mgr port of
           (res, mc, mgr') \<Rightarrow> (Inr res, hw\<lparr>host := mc\<rparr>, mgr'))
      else
        (case remote_call hw nd
                [(''type'', JStr ''iperf_server_start''), (''port'', JInt port)] 15 of
           (Inl e, hw1) \<Rightarrow> (Inl e, hw1, mgr)
         | (Inr response, hw1) \<Rightarrow>
             (Inr [(''ok'', JBool (py_truthy (dict_get response ''ok''))),
                   (''error'', JStr (py_str (py_repr (host hw1))
                      (dict_get_or response ''error'' (JStr []))))], hw1, mgr)))"

definition node_wait_iperf_server ::
  "host_world \<Rightarrow> NodeInfo \<Rightarrow> manager \<Rightarrow> int \<Rightarrow> int
     \<Rightarrow> (exn + dict) \<times> host_world \<times> manager" where
  "node_wait_iperf_server hw nd mgr port timeout_seconds =
     (if is_host nd then
        (case IperfServerManager_wait mgr port timeout_seconds of
           (res, mgr') \<Rightarrow> (Inr res, hw, mgr'))
      else
        (case remote_call hw nd
                [(''type'', JStr ''iperf_server_wait''), (''port'', JInt port),
                 (''timeout_seconds'', JInt timeout_seconds)] (timeout_seconds + 10) of
           (Inl e, hw1) \<Rightarrow> (Inl e, hw1, mgr)
         | (Inr response, hw1) \<Rightarrow>
             (Inr [(''ok'', JBool (py_truthy (dict_get response ''ok''))),
                   (''error'', JStr (py_str (py_repr (host hw1))
                      (dict_get_or response ''error'' (JStr [])))),
                   (''stdout'', JStr (py_str (py_repr (host hw1))
                      (dict_get_or response ''stdout'' (JStr [])))),
                   (''stderr'', JStr (py_str (py_repr (host hw1))
                      (dict_get_or response ''stderr'' (JStr []))))], hw1, mgr)))"

definition node_run_iperf_client ::
  "host_world \<Rightarrow> NodeInfo \<Rightarrow> string \<Rightarrow> int \<Rightarrow> int \<Rightarrow> (exn + dict) \<times> host_world" where
  "node_run_iperf_client hw nd target_host port duration_seconds =
     (if is_host nd then
        (case run_iperf_client (host hw) target_host port duration_seconds of
           (res, mc) \<Rightarrow> (res, hw\<lparr>host := mc\<rparr>))
      else
        (case remote_call hw nd
                [(''type'', JStr ''iperf_client_run''), (''target_host'', JStr target_host),
                 (''port'', JInt port), (''duration_seconds'', JInt duration_seconds)]
                (duration_seconds + 40) of
           (Inl e, hw1) \<Rightarrow> (Inl e, hw1)
         | (Inr response, hw1) \<Rightarrow>
             (Inr [(''ok'', JBool (py_truthy (dict_get response ''ok''))),
                   (''bps'', dict_get response ''bps''),
                   (''error'', JStr (py_str (py_repr (host hw1))
                      (dict_get_or response ''error'' (JStr []))))], hw1)))"

text \<open>The verdict of one direction, once the listener has started and both the client
  and the wait for the listener have answered.\<close>

definition direction_verdict :: "(json \<Rightarrow> string) \<Rightarrow> dict \<Rightarrow> dict \<Rightarrow> exn + dict" where
  "direction_verdict rp client_res server_res =
     (if \<not> py_truthy (dict_get client_res ''ok'') then
        Inr [(''ok'', JBool False), (''bps'', JNull),
             (''error'', JStr (''client failed: ''
                @ py_str rp (dict_get_or client_res ''error'' (JStr []))))]
      else if \<not> py_truthy (dict_get server_res ''ok'') then
        Inr [(''ok'', JBool False), (''bps'', JNull),
             (''error'', JStr (''server failed: ''
                @ py_str rp (if py_truthy (dict_get_or server_res ''error'' (JStr []))
                             then dict_get_or server_res ''error'' (JStr [])
                             else dict_get_or server_res ''stderr'' (JStr []))))]
      else
        (let bps = dict_get client_res ''bps'' in
         if \<not> is_number bps then
           Inr [(''ok'', JBool False), (''bps'', JNull), (''error'', JStr ''no throughput parsed'')]
         else ebind (py_float bps) (\<lambda>x.
                Inr [(''ok'', JBool True), (''bps'', JFloat x), (''error'', JStr [])])))"

definition run_iperf_direction ::
  "host_world \<Rightarrow> NodeInfo \<Rightarrow> NodeInfo \<Rightarrow> manager \<Rightarrow> int \<Rightarrow> int
     \<Rightarrow> (exn + dict) \<times> host_world \<times> manager" where
  "run_iperf_direction hw client_node server_node mgr port duration_seconds =
     (case node_start_iperf_server hw server_node mgr port of
        (Inl e, hw1, mgr1) \<Rightarrow> (Inl e, hw1, mgr1)
      | (Inr start_res, hw1, mgr1) \<Rightarrow>
          if \<not> py_truthy (dict_get start_res ''ok'') then
            (Inr [(''ok'', JBool False), (''bps'', JNull),
                  (''error'', JStr (''server start failed: ''
                     @ py_str (py_repr (host hw1)) (dict_get_or start_res ''error'' (JStr []))))],
             hw1, mgr1)
          else
            (case node_run_iperf_client hw1 client_node (n_ip server_node) port duration_seconds of
               (Inl e, hw2) \<Rightarrow> (Inl e, hw2, mgr1)
             | (Inr client_res, hw2) \<Rightarrow>
                 (case node_wait_iperf_server hw2 server_node mgr1 port (duration_seconds + 30) of
                    (Inl e, hw3, mgr2) \<Rightarrow> (Inl e, hw3, mgr2)
                  | (Inr server_res, hw3, mgr2) \<Rightarrow>
                      (direction_verdict (py_repr (host hw3)) client_res server_res, hw3, mgr2))))"

text \<open>The gigabits per second a direction shows in the report: \<open>None\<close> unless its
  \<open>ok\<close> and its \<open>bps\<close> are both true values.\<close>

definition gbps_of :: "dict \<Rightarrow> exn + real option" where
  "gbps_of res =
     (if py_truthy (dict_get res ''ok'') \<and> py_truthy (dict_get res ''bps'')
      then ebind (py_float (dict_get res ''bps'')) (\<lambda>x. Inr (Some (x / 10 ^ 9)))
      else Inr None)"

definition mesh_row ::
  "machine \<Rightarrow> NodeInfo \<Rightarrow> NodeInfo \<Rightarrow> dict \<Rightarrow> dict \<Rightarrow> exn + mesh_row" where
  "mesh_row mc node_a node_b a_to_b b_to_a =
     ebind (gbps_of a_to_b) (\<lambda>a_to_b_gbps.
     ebind (gbps_of b_to_a) (\<lambda>b_to_a_gbps.
       (let gbps_values = (case a_to_b_gbps of None \<Rightarrow> [] | Some x \<Rightarrow> [x])
                          @ (case b_to_a_gbps of None \<Rightarrow> [] | Some x \<Rightarrow> [x]);
            avg_gbps = (if gbps_values \<noteq> []
                        then Some (sum_list gbps_values / of_nat (length gbps_values))
                        else None);
            status = (if py_truthy (dict_get a_to_b ''ok'') \<and> py_truthy (dict_get b_to_a ''ok'')
                      then ''PASS'' else ''FAIL'');
            detail = (if \<not> py_truthy (dict_get a_to_b ''ok'')
                      then ''A->B: '' @ py_str (py_repr mc) (dict_get_or a_to_b ''error'' (JStr []))
                           @ '' ''
                      else [])
                     @ (if \<not> py_truthy (dict_get b_to_a ''ok'')
                        then ''B->A: '' @ py_str (py_repr mc) (dict_get_or b_to_a ''error'' (JStr []))
                        else [])
        in Inr \<lparr>row_pair = int_dec (n_rank node_a) @ ''-'' @ int_dec (n_rank node_b),
                row_node_a = n_name node_a @ ''('' @ n_ip node_a @ '')'',
                row_node_b = n_name node_b @ ''('' @ n_ip node_b @ '')'',
                row_a_to_b = a_to_b_gbps,
                row_b_to_a = b_to_a_gbps,
                row_avg = avg_gbps,
                row_status = status,
                row_detail = str_strip mc detail\<rparr>)))"

text \<open>The availability check of every node, in order; all nodes are asked before the
  verdict is used.\<close>

fun check_all ::
  "host_world \<Rightarrow> NodeInfo list \<Rightarrow> (exn + json list list \<times> bool) \<times> host_world" where
  "check_all hw [] = (Inr ([], True), hw)"
| "check_all hw (nd # nds) =
     (case node_check_iperf hw nd of
        (Inl e, hw1) \<Rightarrow> (Inl e, hw1)
      | (Inr res, hw1) \<Rightarrow>
          (case check_all hw1 nds of
             (Inl e, hw2) \<Rightarrow> (Inl e, hw2)
           | (Inr (rows, all_ok), hw2) \<Rightarrow>
               (Inr ([JInt (n_rank nd), JStr (n_name nd), JStr (n_ip nd),
                      JStr (if py_truthy (dict_get res ''ok'') then ''PASS'' else ''FAIL''),
                      dict_get_or res ''detail'' (JStr [])] # rows,
                     py_truthy (dict_get res ''ok'') \<and> all_ok), hw2)))"

text \<open>The pairs \<open>(nodes[i], nodes[j])\<close> with \<open>i < j\<close>, in the order of the two loops.\<close>

fun pairs_of :: "'a list \<Rightarrow> ('a \<times> 'a) list" where
  "pairs_of [] = []"
| "pairs_of (x # xs) = map (Pair x) xs @ pairs_of xs"

fun mesh_pairs ::
  "host_world \<Rightarrow> manager \<Rightarrow> (NodeInfo \<times> NodeInfo) list \<Rightarrow> int \<Rightarrow> int
     \<Rightarrow> (exn + mesh_row list) \<times> host_world \<times> manager" where
  "mesh_pairs hw mgr [] port_cursor duration_seconds = (Inr [], hw, mgr)"
| "mesh_pairs hw mgr ((node_a, node_b) # ps) port_cursor duration_seconds =
     (case run_iperf_direction hw node_a node_b mgr port_cursor duration_seconds of
        (Inl e, hw1, mgr1) \<Rightarrow> (Inl e, hw1, mgr1)
      | (Inr a_to_b, hw1, mgr1) \<Rightarrow>
          (case run_iperf_direction hw1 node_b node_a mgr1 (port_cursor + 1) duration_seconds of
             (Inl e, hw2, mgr2) \<Rightarrow> (Inl e, hw2, mgr2)
           | (Inr b_to_a, hw2, mgr2) \<Rightarrow>
               (case mesh_row (host hw2) node_a node_b a_to_b b_to_a of
                  Inl e \<Rightarrow> (Inl e, hw2, mgr2)
                | Inr row \<Rightarrow>
                    (case mesh_pairs hw2 mgr2 ps (port_cursor + 2) duration_seconds of
                       (Inl e, hw3, mgr3) \<Rightarrow> (Inl e, hw3, mgr3)
                     | (Inr rows, hw3, mgr3) \<Rightarrow> (Inr (row # rows), hw3, mgr3)))))"

text \<open>\<open>_run_mesh_iperf_tests\<close>: the exception that leaves it, if any. The manager of
  the host's listeners lives in this call only; its \<open>finally\<close> clause stops them.\<close>

definition run_mesh_iperf_tests ::
  "host_world \<Rightarrow> NodeInfo list \<Rightarrow> int \<Rightarrow> exn option \<times> host_world" where
  "run_mesh_iperf_tests hw nodes duration_seconds =
     (case check_all hw nodes of
        (Inl e, hw1) \<Rightarrow> (Some e, hw1)
      | (Inr (availability_rows, all_ok), hw1) \<Rightarrow>
          (let hw2 = hw1\<lparr>printed := printed hw1 @ [AvailabilityTable availability_rows]\<rparr> in
           if \<not> all_ok then (None, hw2)
           else
             (case mesh_pairs hw2 (IperfServerManager_init ''host'') (pairs_of nodes)
                     DEFAULT_IPERF_PORT_BASE duration_seconds of
                (Inl e, hw3, mgr) \<Rightarrow> (Some e, hw3)
              | (Inr rows, hw3, mgr) \<Rightarrow>
                  (None, hw3\<lparr>printed := printed hw3 @ [MeshTable rows]\<rparr>))))"

section \<open>The host session\<close>

text \<open>How a session ends: it returns a status, an exception leaves it, or it waits
  for a connection that never comes.\<close>

datatype outcome = Returns int | Raises exn | Blocks

text \<open>The prompt is repeated until the operator answers \<open>start\<close>, \<open>s\<close> or nothing; at
  the end of the input \<open>input()\<close> raises.\<close>

fun await_start :: "string list \<Rightarrow> (exn + unit) \<times> string list" where
  "await_start [] = (Inl (EOFError ''EOF when reading a line''), [])"
| "await_start (command # rest) =
     (if command \<in> set [''start'', ''s'', []] then (Inr (), rest) else await_start rest)"

fun send_start ::
  "host_world \<Rightarrow> WorkerConnection list \<Rightarrow> int \<Rightarrow> string \<Rightarrow> int \<Rightarrow> int
     \<Rightarrow> (exn + unit) \<times> host_world" where
  "send_start hw [] cluster_size master_addr master_port nccl_timeout_seconds = (Inr (), hw)"
| "send_start hw (worker # workers) cluster_size master_addr master_port nccl_timeout_seconds =
     (case chan_send hw (w_channel worker)
             [(''type'', JStr ''start_nccl''),
              (''rank'', JInt (w_rank worker)),
              (''world_size'', JInt cluster_size),
              (''master_addr'', JStr master_addr),
              (''master_port'', JInt master_port),
              (''timeout_seconds'', JInt nccl_timeout_seconds)] of
        (Inl e, hw1) \<Rightarrow> (Inl e, hw1)
      | (Inr u, hw1) \<Rightarrow>
          send_start hw1 workers cluster_size master_addr master_port nccl_timeout_seconds)"

definition mesh_nodes :: "machine \<Rightarrow> string \<Rightarrow> WorkerConnection list \<Rightarrow> NodeInfo list" where
  "mesh_nodes mc master_addr workers =
     sort_key n_rank
       (\<lparr>n_rank = 0, n_name = gethostname mc, n_ip = master_addr, is_host = True,
         n_worker = None\<rparr>
        # map (\<lambda>worker. \<lparr>n_rank = w_rank worker, n_name = w_hostname worker,
                           n_ip = advertised_ip worker, is_host = False,
                           n_worker = Some worker\<rparr>) workers)"

text \<open>The \<open>try\<close> block of \<open>run_host_mode\<close> from the prompt on: the go-ahead, the start
  commands, the host's own test, the replies, the report, the mesh phase and the
  status.\<close>

definition host_phases ::
  "host_world \<Rightarrow> WorkerConnection list \<Rightarrow> int \<Rightarrow> string \<Rightarrow> int \<Rightarrow> int \<Rightarrow> int
     \<Rightarrow> outcome \<times> host_world" where
  "host_phases hw workers cluster_size master_addr master_port nccl_timeout_seconds
       iperf_duration_seconds =
     (case await_start (console hw) of
        (Inl e, rest) \<Rightarrow> (Raises e, hw\<lparr>console := rest\<rparr>)
      | (Inr u, rest) \<Rightarrow>
          (case send_start (hw\<lparr>console := rest\<rparr>) workers cluster_size master_addr master_port
                  nccl_timeout_seconds of
             (Inl e, hw2) \<Rightarrow> (Raises e, hw2)
           | (Inr u, hw2) \<Rightarrow>
               (case run_nccl_distributed (host hw2) 0 cluster_size master_addr master_port
                       nccl_timeout_seconds of
                  Inl e \<Rightarrow> (Raises e, hw2)
                | Inr local_result \<Rightarrow>
                    (case collect_results hw2 workers cluster_size nccl_timeout_seconds of
                       (Inl e, hw3) \<Rightarrow> (Raises e, hw3)
                     | (Inr worker_results, hw3) \<Rightarrow>
                         (case sort_by_rank (str_to_int (host hw3))
                                 (local_result # worker_results) of
                            Inl e \<Rightarrow> (Raises e, hw3)
                          | Inr all_results \<Rightarrow>
                              (case run_mesh_iperf_tests
                                      (hw3\<lparr>printed := printed hw3
                                                @ [NcclTable (map nccl_row all_results)]\<rparr>)
                                      (mesh_nodes (host hw3) master_addr workers)
                                      iperf_duration_seconds of
                                 (Some e, hw5) \<Rightarrow> (Raises e, hw5)
                               | (None, hw5) \<Rightarrow> (Returns (exit_status all_results), hw5)))))))"

text \<open>The outer \<open>finally\<close> clause: every worker is sent \<open>shutdown\<close> and given five
  seconds to answer, what that raises is swallowed, and its channel is closed.\<close>

fun teardown :: "host_world \<Rightarrow> WorkerConnection list \<Rightarrow> host_world" where
  "teardown hw [] = hw"
| "teardown hw (worker # workers) =
     (let hw1 = (case chan_send hw (w_channel worker) [(''type'', JStr ''shutdown'')] of
                   (Inl e, h) \<Rightarrow> h
                 | (Inr u, h) \<Rightarrow> snd (chan_recv h (w_channel worker) (Some 5)))
      in teardown (chan_close hw1 (w_channel worker)) workers)"

text \<open>\<open>run_host_mode\<close>. The listener is bound on \<open>control_port\<close>; what that raises is
  the \<open>bind_listener\<close> of the world.\<close>

definition run_host_mode ::
  "host_world \<Rightarrow> int \<Rightarrow> string \<Rightarrow> int \<Rightarrow> int \<Rightarrow> int \<Rightarrow> int \<Rightarrow> outcome \<times> host_world" where
  "run_host_mode hw cluster_size master_addr master_port control_port nccl_timeout_seconds
       iperf_duration_seconds =
     (if cluster_size < 2 then (Returns 1, hw)
      else
        (case bind_listener hw of
           Some e \<Rightarrow> (Returns 1, hw)
         | None \<Rightarrow>
             (case register_workers cluster_size (accepts hw) [] hw of
                (AcceptBlocks, workers, hw1) \<Rightarrow> (Blocks, hw1)
              | (AcceptRaised e, workers, hw1) \<Rightarrow> (Raises e, teardown hw1 workers)
              | (Registered, workers, hw1) \<Rightarrow>
                  (case host_phases hw1 workers cluster_size master_addr master_port
                          nccl_timeout_seconds iperf_duration_seconds of
                     (r, hw2) \<Rightarrow> (r, teardown hw2 workers)))))"

section \<open>Example machines\<close>

text \<open>
  A machine with one healthy GPU in a group of \<open>n\<close> correct participants: the
  all-reduce adds the contributions of the other ranks to the local one. No \<open>iperf3\<close>
  is installed. The runtime functions are trivial stand-ins.
\<close>

definition healthy_torch :: "int \<Rightarrow> int \<Rightarrow> torch_env" where
  "healthy_torch rank n =
     \<lparr>import_torch = None, cuda_is_available = True, cuda_device_count = 1,
      init_group = (\<lambda>r w t. None),
      all_reduce = (\<lambda>x. Inr (x + (\<Sum>r\<leftarrow>remove1 rank [0..n - 1]. of_int r))),
      barrier = None, elapsed = 1\<rparr>"

definition plain_machine :: machine where
  "plain_machine =
     \<lparr>py_repr = (\<lambda>v. ''?''), str_to_int = (\<lambda>s. None), json_loads = (\<lambda>s. None),
      str_strip = (\<lambda>s. s), str_splitlines = (\<lambda>s. [s]), gethostname = ''node'',
      torch = healthy_torch 0 1,
      subprocess_run = (\<lambda>k argv. FileNotFound ''iperf3''), runs = 0,
      popen = (\<lambda>k argv. Inl (OSError ''iperf3'')), spawned = 0\<rparr>"

text \<open>A fresh connection on which the peer will send the given events.\<close>

definition open_channel :: "rx list \<Rightarrow> channel" where
  "open_channel msgs =
     \<lparr>sock_timeout = None, inbox = msgs, tx_script = [], outbox = [], closed = False\<rparr>"

text \<open>A host on \<open>plain_machine\<close> whose listener binds, with the connections and the
  operator's answers given.\<close>

definition quiet_host :: "accept_event list \<Rightarrow> string list \<Rightarrow> host_world" where
  "quiet_host evs answers =
     \<lparr>host = plain_machine, bind_listener = None, accepts = evs,
      chans = (\<lambda>c. open_channel []), next_chan = 0, console = answers, printed = []\<rparr>"

text \<open>Two nodes of a cluster, the host and its first worker; a machine on which
  \<open>iperf3\<close> runs, as a client that reports 9.4 Gbit/s sent and as a listener that exits
  with status 0 and has written nothing; and a host on that machine whose connections
  will deliver the given replies.\<close>

definition host_node :: NodeInfo where
  "host_node = \<lparr>n_rank = 0, n_name = ''gpu-a'', n_ip = ''10.0.0.1'', is_host = True,
                n_worker = None\<rparr>"

definition worker_node :: NodeInfo where
  "worker_node =
     \<lparr>n_rank = 1, n_name = ''gpu-b'', n_ip = ''10.0.0.2'', is_host = False,
      n_worker = Some \<lparr>w_rank = 1, w_hostname = ''gpu-b'', advertised_ip = ''10.0.0.2'',
                       peer_ip = ''10.0.0.2'', gpu_count = 8, w_channel = 0\<rparr>\<rparr>"

definition iperf_report :: json where
  "iperf_report =
     JObj [(''end'',
            JObj [(''sum_sent'', JObj [(''bits_per_second'', JFloat 9400000000)]),
                  (''sum_received'', JObj [(''bits_per_second'', JFloat 9300000000)])])]"

definition iperf_machine :: machine where
  "iperf_machine =
     plain_machine
       \<lparr>json_loads := (\<lambda>s. if s = ''report'' then Some iperf_report else None),
        subprocess_run := (\<lambda>k argv. Completed 0 ''report'' []),
        popen := (\<lambda>k argv. Inr \<lparr>exits_in_time = True, returncode = 0,
                                  proc_stdout = [], proc_stderr = []\<rparr>)\<rparr>"

definition mesh_host :: "rx list \<Rightarrow> host_world" where
  "mesh_host replies =
     (quiet_host [] [])\<lparr>host := iperf_machine, chans := (\<lambda>c. open_channel replies),
                        next_chan := 1\<rparr>"

text \<open>A session of two nodes: the host has a healthy GPU and no \<open>iperf3\<close>; the one
  worker registers, answers the collective test with a passing result and then sends
  the given lines; the operator answers \<open>start\<close>.\<close>

definition register_msg :: json where
  "register_msg = JObj [(''type'', JStr ''register''), (''hostname'', JStr ''gpu-b''),
                        (''advertised_ip'', JStr ''10.0.0.2''), (''gpu_count'', JInt 8)]"

definition worker_ok_reply :: json where
  "worker_ok_reply =
     JObj [(''type'', JStr ''nccl_result''), (''ok'', JBool True), (''rank'', JInt 1),
           (''world_size'', JInt 2), (''hostname'', JStr ''gpu-b''), (''sum'', JFloat 1),
           (''expected_sum'', JFloat 1), (''elapsed_seconds'', JFloat 2), (''error'', JStr [])]"

definition two_node_world :: "rx list \<Rightarrow> host_world" where
  "two_node_world later =
     (quiet_host [Accepted (open_channel ([RxLine register_msg, RxLine worker_ok_reply] @ later))
                    ''10.0.0.2''] [''start''])
       \<lparr>host := plain_machine\<lparr>torch := healthy_torch 0 2\<rparr>\<rparr>"

text \<open>The same session with a worker whose passing result carries no usable rank.\<close>

definition null_rank_world :: host_world where
  "null_rank_world =
     (quiet_host [Accepted (open_channel
                    [RxLine register_msg,
                     RxLine (JObj [(''type'', JStr ''nccl_result''), (''ok'', JBool True),
                                   (''rank'', JNull)])])
                    ''10.0.0.2''] [''start''])
       \<lparr>host := plain_machine\<lparr>torch := healthy_torch 0 2\<rparr>\<rparr>"

section \<open>Properties\<close>

text \<open>
  C7. Starting a listener on a port that already has a tracked listener fails: the reply
  has \<open>ok = False\<close> and an error text naming the port, no process is started, and the
  manager, with the listener it tracks on that port, is unchanged.
\<close>

theorem start_on_occupied_port_fails:
  assumes "servers mgr port = Some p"
  shows "IperfServerManager_start mc mgr port =
           ([(''ok'', JBool False),
             (''error'', JStr (''iperf3 server already exists on port '' @ int_dec port))],
            mc, mgr)"
  using assms by (simp add: IperfServerManager_start_def)

theorem start_on_occupied_port_fails_witness:
  "servers \<lparr>label = ''worker'',
            servers = [5301 \<mapsto> \<lparr>exits_in_time = True, returncode = 0,
                                  proc_stdout = [], proc_stderr = []\<rparr>]\<rparr> 5301
     = Some \<lparr>exits_in_time = True, returncode = 0, proc_stdout = [], proc_stderr = []\<rparr>
   \<and> IperfServerManager_start plain_machine
       \<lparr>label = ''worker'',
        servers = [5301 \<mapsto> \<lparr>exits_in_time = True, returncode = 0,
                              proc_stdout = [], proc_stderr = []\<rparr>]\<rparr> 5301
     = ([(''ok'', JBool False),
         (''error'', JStr ''iperf3 server already exists on port 5301'')],
        plain_machine,
        \<lparr>label = ''worker'',
         servers = [5301 \<mapsto> \<lparr>exits_in_time = True, returncode = 0,
                               proc_stdout = [], proc_stderr = []\<rparr>]\<rparr>)"
  using start_on_occupied_port_fails
    [of "\<lparr>label = ''worker'',
         servers = [5301 \<mapsto> \<lparr>exits_in_time = True, returncode = 0,
                               proc_stdout = [], proc_stderr = []\<rparr>]\<rparr>"
        5301
        "\<lparr>exits_in_time = True, returncode = 0, proc_stdout = [], proc_stderr = []\<rparr>"
        plain_machine]
  by (simp add: int_dec_def nat_dec.simps digit_char_def)

text \<open>
  C10. One call of \<open>recv\<close>, whatever its outcome (a parsed message, a timeout, a closed
  peer, any other failure), leaves the timeout configured on the socket as it was.
\<close>

theorem recv_restores_timeout:
  "sock_timeout (snd (JsonChannel_recv ch t)) = sock_timeout ch"
  by (simp add: JsonChannel_recv_def settimeout_def Let_def
      split: option.splits sum.splits prod.splits read_result.splits if_splits)

subsection \<open>The collective test\<close>

lemma sum_upto_ranks:
  "(\<Sum>r\<leftarrow>[0..int n - 1]. (of_int r :: real)) = of_int (int n) * (of_int (int n) - 1) / 2"
proof (induction n)
  case 0
  then show ?case by simp
next
  case (Suc n)
  have "[0..int (Suc n) - 1] = [0..int n - 1] @ [int n]"
    using upto_rec2 [of 0 "int n"] by simp
  with Suc show ?case by (simp add: field_simps)
qed

lemma sum_ranks_closed_form:
  assumes "0 \<le> rank" "rank < n"
  shows "of_int rank + (\<Sum>r\<leftarrow>remove1 rank [0..n - 1]. (of_int r :: real))
         = of_int n * (of_int n - 1) / 2"
proof -
  have mem: "rank \<in> set [0..n - 1]" using assms by simp
  have "of_int rank + (\<Sum>r\<leftarrow>remove1 rank [0..n - 1]. (of_int r :: real))
        = (\<Sum>r\<leftarrow>[0..n - 1]. of_int r)"
    using sum_list_map_remove1 [OF mem, of "of_int :: int \<Rightarrow> real"] by simp
  also have "\<dots> = of_int n * (of_int n - 1) / 2"
    using sum_upto_ranks [of "nat n"] assms by simp
  finally show ?thesis .
qed

lemma dbl_overflow_pos: "0 < dbl_overflow"
  by (simp add: dbl_overflow_def)

lemma rank_in_range:
  assumes "0 \<le> rank" "rank < n" "\<bar>of_int (n * (n - 1)) / 2 :: real\<bar> < dbl_overflow"
  shows "\<bar>of_int rank :: real\<bar> < dbl_overflow"
proof (cases "n = 1")
  case True
  with assms have "rank = 0" by simp
  then show ?thesis using dbl_overflow_pos by simp
next
  case False
  with assms have n2: "2 \<le> n" by simp
  have "2 * (n - 1) \<le> n * (n - 1)"
    using n2 by (intro mult_right_mono) auto
  moreover have "rank \<le> n - 1" using assms by simp
  ultimately have "2 * rank \<le> n * (n - 1)"
    using order_trans [of "2 * rank" "2 * (n - 1)" "n * (n - 1)"] by simp
  then have "(of_int (2 * rank) :: real) \<le> of_int (n * (n - 1))"
    by (simp only: of_int_le_iff)
  then have "(of_int rank :: real) \<le> of_int (n * (n - 1)) / 2" by simp
  moreover have "(0::real) \<le> of_int rank" using assms by simp
  ultimately show ?thesis using assms(3) by linarith
qed

text \<open>Integers up to \<open>2^24\<close> are float32 values; 16782321 is not, and rounds to its
  even neighbour.\<close>

lemma round_half_even_of_int: "round_half_even (of_int k) = k"
  by (simp add: round_half_even_def)

lemma pow2_pos: "0 < pow2 i"
  by (simp add: pow2_def)

lemma to_float32_on_grid:
  assumes "x / pow2 (max \<lfloor>log 2 \<bar>x\<bar>\<rfloor> (- 126) - 23) = of_int m"
  shows "to_float32 x = x"
proof (cases "x = 0")
  case True
  then show ?thesis by (simp add: to_float32_def)
next
  case False
  define q where "q = pow2 (max \<lfloor>log 2 \<bar>x\<bar>\<rfloor> (- 126) - 23)"
  have q: "0 < q" by (simp add: q_def pow2_pos)
  from assms have "x = q * of_int m" using q by (simp add: q_def field_simps)
  moreover have "to_float32 x = q * of_int (round_half_even (x / q))"
    using False by (simp add: to_float32_def q_def Let_def)
  ultimately show ?thesis using assms by (simp add: q_def round_half_even_of_int)
qed

lemma floor_log2_bounds:
  assumes "1 \<le> \<bar>k\<bar>" and "\<bar>k\<bar> \<le> 2 ^ 24"
  shows "0 \<le> \<lfloor>log 2 \<bar>of_int k :: real\<bar>\<rfloor>" and "\<lfloor>log 2 \<bar>of_int k :: real\<bar>\<rfloor> \<le> 24"
proof -
  have pos: "(0::real) < \<bar>of_int k\<bar>" using assms(1) by simp
  have "(1::real) \<le> \<bar>of_int k\<bar>" using assms(1) by (metis of_int_1 of_int_abs of_int_le_iff)
  then have "0 \<le> log 2 \<bar>of_int k :: real\<bar>" by simp
  then show "0 \<le> \<lfloor>log 2 \<bar>of_int k :: real\<bar>\<rfloor>" by simp
  have "\<bar>of_int k :: real\<bar> \<le> 2 ^ 24"
    using assms(2) by (metis of_int_abs of_int_le_iff of_int_numeral of_int_power)
  then have "\<bar>of_int k :: real\<bar> < 2 powr 25" by simp
  then have "log 2 \<bar>of_int k :: real\<bar> < 25"
    using pos by (simp add: log_less_iff)
  then show "\<lfloor>log 2 \<bar>of_int k :: real\<bar>\<rfloor> \<le> 24" by (simp add: floor_le_iff)
qed

lemma to_float32_of_int:
  assumes "\<bar>k\<bar> \<le> 2 ^ 24"
  shows "to_float32 (of_int k) = of_int k"
proof (cases "k = 0")
  case True
  then show ?thesis by (simp add: to_float32_def)
next
  case False
  then have k1: "1 \<le> \<bar>k\<bar>" by simp
  define e where "e = \<lfloor>log 2 \<bar>of_int k :: real\<bar>\<rfloor>"
  have e0: "0 \<le> e" and e24: "e \<le> 24"
    using floor_log2_bounds [OF k1 assms] by (simp_all add: e_def)
  have mx: "max e (- 126) = e" using e0 by simp
  show ?thesis
  proof (cases "e \<le> 23")
    case True
    then have "pow2 (e - 23) = 1 / 2 ^ nat (23 - e)"
      by (cases "e = 23") (simp_all add: pow2_def)
    then have "of_int k / pow2 (e - 23) = (of_int (k * 2 ^ nat (23 - e)) :: real)"
      by simp
    then show ?thesis
      using to_float32_on_grid [of "of_int k" "k * 2 ^ nat (23 - e)"] mx
      by (simp add: e_def)
  next
    case False
    with e24 have e: "e = 24" by simp
    have pos: "(0::real) < \<bar>of_int k\<bar>" using k1 by simp
    have "2 powr (of_int e) \<le> \<bar>of_int k :: real\<bar>"
      using floor_log_eq_powr_iff [of "\<bar>of_int k :: real\<bar>" 2 e] pos by (simp add: e_def)
    then have "(2::real) ^ 24 \<le> \<bar>of_int k\<bar>" using e by simp
    then have "(2::int) ^ 24 \<le> \<bar>k\<bar>"
      by (metis of_int_abs of_int_le_iff of_int_numeral of_int_power)
    with assms have "\<bar>k\<bar> = 2 ^ 24" by simp
    then have "even k" by (metis even_abs_add_iff even_add even_numeral even_power zero_less_numeral)
    then obtain m where m: "k = 2 * m" by (elim evenE)
    have "pow2 (e - 23) = 2" using e by (simp add: pow2_def)
    then have "of_int k / pow2 (e - 23) = (of_int m :: real)" using m by simp
    then show ?thesis
      using to_float32_on_grid [of "of_int k" m] mx by (simp add: e_def)
  qed
qed

lemma to_float32_16782321: "to_float32 16782321 = 16782320"
proof -
  have "\<lfloor>log 2 (16782321 :: real)\<rfloor> = 24"
    using floor_log_eq_powr_iff [of "16782321 :: real" 2 24] by simp
  then have q: "pow2 (max \<lfloor>log 2 (16782321 :: real)\<rfloor> (- 126) - 23) = 2"
    by (simp add: pow2_def)
  have fl: "\<lfloor>16782321 / 2 :: real\<rfloor> = 8391160" by simp
  have "round_half_even (16782321 / 2) = 8391160"
    by (simp add: round_half_even_def fl Let_def)
  then show ?thesis
    by (simp add: to_float32_def q Let_def)
qed

lemma to_float32_small:
  "to_float32 0 = 0" "to_float32 1 = 1" "to_float32 2 = 2" "to_float32 3 = 3"
  "to_float32 6 = 6"
  using to_float32_of_int [of 0] to_float32_of_int [of 1] to_float32_of_int [of 2]
    to_float32_of_int [of 3] to_float32_of_int [of 6]
  by simp_all

lemma nccl_try_outcome:
  fixes e :: real and rank ws :: int and h :: string
  defines "init \<equiv> [(''ok'', JBool False), (''rank'', JInt rank), (''world_size'', JInt ws),
                    (''hostname'', JStr h), (''sum'', JNull), (''expected_sum'', JFloat e),
                    (''elapsed_seconds'', JFloat 0), (''error'', JStr [])]"
  shows "(\<exists>m. nccl_try mc rank ws tmo init
             = [(''ok'', JBool False), (''rank'', JInt rank), (''world_size'', JInt ws),
                (''hostname'', JStr h), (''sum'', JNull), (''expected_sum'', JFloat e),
                (''elapsed_seconds'', JFloat 0), (''error'', JStr m)])
       \<or> (\<exists>s m. nccl_try mc rank ws tmo init
             = [(''ok'', JBool False), (''rank'', JInt rank), (''world_size'', JInt ws),
                (''hostname'', JStr h), (''sum'', JFloat s), (''expected_sum'', JFloat e),
                (''elapsed_seconds'', JFloat 0), (''error'', JStr m)])
       \<or> (\<exists>s. \<bar>s - e\<bar> < 1 / 10000 \<and> nccl_try mc rank ws tmo init
             = [(''ok'', JBool True), (''rank'', JInt rank), (''world_size'', JInt ws),
                (''hostname'', JStr h), (''sum'', JFloat s), (''expected_sum'', JFloat e),
                (''elapsed_seconds'', JFloat 0), (''error'', JStr [])])"
  unfolding init_def nccl_try_def
  by (simp add: dict_set_def dict_get_def Let_def split: option.splits sum.splits)

text \<open>
  C1, as the code has it. For every world size from 1 to 5793, a collective test that
  gets through its join, its all-reduce and its barrier in a group whose all-reduce
  delivers the sum of the ranks \<open>0, \<dots>, world_size - 1\<close> records that sum, which is
  \<open>world_size \<sqdot> (world_size - 1) / 2\<close> (so within \<open>1e-4\<close> of it), and returns \<open>ok = True\<close>
  with an empty error. Up to 5793 the sum is at most \<open>2^24\<close> and the float32 tensor holds
  it exactly.
\<close>

theorem collective_test_correct:
  assumes "1 \<le> world_size" and "world_size \<le> 5793" and "0 \<le> rank" and "rank < world_size"
    and "import_torch (torch mc) = None"
    and "cuda_is_available (torch mc)" and "1 \<le> cuda_device_count (torch mc)"
    and "init_group (torch mc) rank world_size timeout_seconds = None"
    and "all_reduce (torch mc) (of_int rank)
           = Inr (of_int rank + (\<Sum>r\<leftarrow>remove1 rank [0..world_size - 1]. of_int r))"
    and "barrier (torch mc) = None"
  shows "\<exists>res. run_nccl_distributed mc rank world_size master_addr master_port timeout_seconds
                   = Inr res
           \<and> dict_get res ''ok'' = JBool True
           \<and> dict_get res ''sum'' = JFloat (of_int (world_size * (world_size - 1)) / 2)
           \<and> \<bar>number_value (dict_get res ''sum'')
                - of_int (world_size * (world_size - 1)) / 2\<bar> < 1 / 10000
           \<and> dict_get res ''expected_sum'' = JFloat (of_int (world_size * (world_size - 1)) / 2)
           \<and> dict_get res ''error'' = JStr []"
proof -
  define p where "p = world_size * (world_size - 1)"
  define k where "k = p div 2"
  have ev: "2 dvd p" unfolding p_def by simp
  have half: "(of_int (world_size * (world_size - 1)) / 2 :: real) = of_int k"
    using real_of_int_div [OF ev] unfolding k_def p_def by simp
  have "world_size * (world_size - 1) \<le> 5793 * (5793 - 1)"
    using assms(1,2) by (intro mult_mono) auto
  then have pb: "p \<le> 33553056" unfolding p_def by simp
  have p0: "0 \<le> p" unfolding p_def using assms(1) by simp
  have kb: "k \<le> 16777216" using pb unfolding k_def by arith
  have k0: "0 \<le> k" using p0 unfolding k_def by arith
  have fk: "to_float32 (of_int k) = of_int k"
    using to_float32_of_int [of k] kb k0 by simp
  have rb: "rank \<le> 16777216" using assms(2,4) by linarith
  have fr: "to_float32 (of_int rank) = of_int rank"
    using to_float32_of_int [of rank] rb assms(3) by simp
  have s: "of_int rank + (\<Sum>r\<leftarrow>remove1 rank [0..world_size - 1]. (of_int r :: real)) = of_int k"
    using sum_ranks_closed_form [of rank world_size] assms(3,4) half by simp
  have big: "(16777216 :: real) < dbl_overflow" by (simp add: dbl_overflow_def)
  have "(of_int k :: real) \<le> of_int 16777216" using kb by (simp only: of_int_le_iff)
  moreover have "(0 :: real) \<le> of_int k" using k0 by simp
  ultimately have e: "\<not> dbl_overflow \<le> \<bar>of_int k :: real\<bar>" using big by simp
  have "(of_int rank :: real) \<le> of_int 16777216" using rb by (simp only: of_int_le_iff)
  moreover have "(0 :: real) \<le> of_int rank" using assms(3) by simp
  ultimately have r: "\<not> dbl_overflow \<le> \<bar>of_int rank :: real\<bar>" using big by simp
  have div: "py_truediv (world_size * (world_size - 1)) 2 = Inr (of_int k)"
    using e half by (simp add: py_truediv_def)
  have fl: "py_float_of_int rank = Inr (of_int rank)"
    using r by (simp add: py_float_of_int_def)
  have body: "nccl_try mc rank world_size timeout_seconds
               [(''ok'', JBool False), (''rank'', JInt rank), (''world_size'', JInt world_size),
                (''hostname'', JStr (gethostname mc)), (''sum'', JNull),
                (''expected_sum'', JFloat (of_int k)), (''elapsed_seconds'', JFloat 0),
                (''error'', JStr [])]
             = [(''ok'', JBool True), (''rank'', JInt rank), (''world_size'', JInt world_size),
                (''hostname'', JStr (gethostname mc)), (''sum'', JFloat (of_int k)),
                (''expected_sum'', JFloat (of_int k)), (''elapsed_seconds'', JFloat 0),
                (''error'', JStr [])]"
    using assms(6-10)
    by (simp add: nccl_try_def fl fr s fk dict_set_def dict_get_def Let_def)
  show ?thesis
    unfolding half using assms(5)
    by (simp add: run_nccl_distributed_def div body dict_set_def dict_get_def)
qed

theorem collective_test_correct_witness:
  "run_nccl_distributed (plain_machine\<lparr>torch := healthy_torch 2 4\<rparr>) 2 4 ''10.0.0.1'' 29500 180
     = Inr [(''ok'', JBool True), (''rank'', JInt 2), (''world_size'', JInt 4),
            (''hostname'', JStr ''node''), (''sum'', JFloat 6), (''expected_sum'', JFloat 6),
            (''elapsed_seconds'', JFloat 1), (''error'', JStr [])]
   \<and> run_nccl_single plain_machine
     = Inr [(''ok'', JBool True), (''rank'', JInt 0), (''world_size'', JInt 1),
            (''hostname'', JStr ''node''), (''sum'', JFloat 0), (''expected_sum'', JFloat 0),
            (''elapsed_seconds'', JFloat 1), (''error'', JStr [])]"
  using collective_test_correct [of 4 2 "plain_machine\<lparr>torch := healthy_torch 2 4\<rparr>" 180
                                    "''10.0.0.1''" 29500]
  by (simp add: run_nccl_single_def run_nccl_distributed_def py_truediv_def nccl_try_def
        py_float_of_int_def dict_set_def dict_get_def Let_def plain_machine_def
        healthy_torch_def dbl_overflow_def upto.simps to_float32_small)

text \<open>
  C1, as stated, fails from a world size of 5794 on. The sum of the ranks is then
  16782321, which no float32 holds: the tensor of a group that adds the ranks correctly
  holds 16782320, the check against the expected value misses by 1, and the runner
  returns \<open>ok = False\<close> with a mismatch error.
\<close>

theorem float32_sum_misses_expected:
  "run_nccl_distributed (plain_machine\<lparr>torch := healthy_torch 0 5794\<rparr>) 0 5794
       ''10.0.0.1'' 29500 180
     = Inr [(''ok'', JBool False), (''rank'', JInt 0), (''world_size'', JInt 5794),
            (''hostname'', JStr ''node''), (''sum'', JFloat 16782320),
            (''expected_sum'', JFloat 16782321), (''elapsed_seconds'', JFloat 1),
            (''error'', JStr ''all_reduce sum mismatch: got=?, expected=?'')]"
proof -
  have "all_reduce (healthy_torch 0 5794) 0 = Inr (of_int 5794 * (of_int 5794 - 1) / 2)"
    using sum_ranks_closed_form [of 0 5794] by (simp add: healthy_torch_def)
  then have ar: "all_reduce (healthy_torch 0 5794) 0 = Inr 16782321" by simp
  have env: "import_torch (healthy_torch 0 5794) = None"
    "cuda_is_available (healthy_torch 0 5794)"
    "cuda_device_count (healthy_torch 0 5794) = 1"
    "init_group (healthy_torch 0 5794) 0 5794 180 = None"
    "barrier (healthy_torch 0 5794) = None"
    "elapsed (healthy_torch 0 5794) = 1"
    by (simp_all add: healthy_torch_def)
  show ?thesis
    by (simp add: run_nccl_distributed_def py_truediv_def nccl_try_def py_float_of_int_def
        dict_set_def dict_get_def Let_def plain_machine_def dbl_overflow_def
        to_float32_small ar env to_float32_16782321)
qed

text \<open>
  C9, as the code has it. When the expected sum \<open>world_size \<sqdot> (world_size - 1) / 2\<close> is a
  finite double, the runner returns a dictionary on every path (failed import, no GPU,
  failed join, communication or verification, success), with exactly the keys \<open>ok\<close>,
  \<open>rank\<close>, \<open>world_size\<close>, \<open>hostname\<close>, \<open>sum\<close>, \<open>expected_sum\<close>, \<open>elapsed_seconds\<close> and
  \<open>error\<close>; and when \<open>ok\<close> is true, \<open>sum\<close> is a number within \<open>1e-4\<close> of \<open>expected_sum\<close>
  and \<open>error\<close> is the empty string.
\<close>

theorem nccl_result_shape:
  assumes "\<bar>of_int (world_size * (world_size - 1)) / 2 :: real\<bar> < dbl_overflow"
  shows "\<exists>res. run_nccl_distributed mc rank world_size master_addr master_port timeout_seconds
                 = Inr res
           \<and> map fst res = [''ok'', ''rank'', ''world_size'', ''hostname'', ''sum'',
                             ''expected_sum'', ''elapsed_seconds'', ''error'']
           \<and> (py_truthy (dict_get res ''ok'') \<longrightarrow>
                 is_number (dict_get res ''sum'')
               \<and> \<bar>number_value (dict_get res ''sum'')
                    - number_value (dict_get res ''expected_sum'')\<bar> < 1 / 10000
               \<and> dict_get res ''error'' = JStr [])"
proof -
  define e :: real where "e = of_int (world_size * (world_size - 1)) / of_int 2"
  have div: "py_truediv (world_size * (world_size - 1)) 2 = Inr e"
    using assms by (simp add: py_truediv_def e_def)
  show ?thesis
  proof (cases "import_torch (torch mc)")
    case (Some x)
    then show ?thesis
      by (simp add: run_nccl_distributed_def div dict_set_def dict_get_def)
  next
    case None
    from nccl_try_outcome [of mc rank world_size timeout_seconds "gethostname mc" e]
    show ?thesis
      using None
      by (elim disjE exE conjE)
         (simp_all add: run_nccl_distributed_def div dict_set_def dict_get_def)
  qed
qed

theorem nccl_result_shape_witness:
  "\<bar>of_int (3 * (3 - 1)) / 2 :: real\<bar> < dbl_overflow
   \<and> run_nccl_distributed (plain_machine\<lparr>torch := healthy_torch 0 3\<rparr>) 0 3 ''10.0.0.1'' 29500 180
     = Inr [(''ok'', JBool True), (''rank'', JInt 0), (''world_size'', JInt 3),
            (''hostname'', JStr ''node''), (''sum'', JFloat 3), (''expected_sum'', JFloat 3),
            (''elapsed_seconds'', JFloat 1), (''error'', JStr [])]"
  using nccl_result_shape [of 3 "plain_machine\<lparr>torch := healthy_torch 0 3\<rparr>" 0
                              "''10.0.0.1''" 29500 180]
  by (simp add: run_nccl_distributed_def py_truediv_def nccl_try_def
        py_float_of_int_def dict_set_def dict_get_def Let_def plain_machine_def
        healthy_torch_def dbl_overflow_def upto.simps to_float32_small)

text \<open>
  C9, as stated, fails: the expected sum is computed before the \<open>try\<close> block, and for a
  world size of \<open>2^600\<close> the division raises \<open>OverflowError\<close>, which leaves the runner.
\<close>

theorem nccl_overflow_escapes:
  "run_nccl_distributed plain_machine 0 (2 ^ 600) ''127.0.0.1'' 29500 180
     = Inl (OverflowError ''integer division result too large for a float'')"
  by (simp add: run_nccl_distributed_def py_truediv_def dbl_overflow_def)

subsection \<open>The command loop of the worker\<close>













subsection \<open>Registration\<close>

text \<open>
  Every connection either leaves the list of workers as it is or appends one worker
  whose rank is one more than the number of workers listed before; so the ranks in the
  list are \<open>1, 2, \<dots>\<close> in order of registration.
\<close>

lemma register_one_cases:
  assumes "register_one cs ws hw c addr = (ws', hw')"
  shows "ws' = ws \<or> (\<exists>w. ws' = ws @ [w] \<and> w_rank w = int (length ws) + 1 \<and> w_channel w = c)"
  using assms
  by (auto simp: register_one_def Let_def split: prod.splits sum.splits if_splits)

lemma register_workers_ranks:
  assumes "register_workers cs evs ws hw = (st, ws', hw')"
    and "map w_rank ws = map int [1..<Suc (length ws)]"
  shows "map w_rank ws' = map int [1..<Suc (length ws')]"
  using assms
proof (induction cs evs ws hw rule: register_workers.induct)
  case (1 cs ws hw)
  then show ?case by (auto split: if_splits)
next
  case (2 cs ev evs ws hw)
  show ?case
  proof (cases "int (length ws) < cs - 1")
    case False
    with 2 show ?thesis by auto
  next
    case True
    show ?thesis
    proof (cases ev)
      case (AcceptFailed e)
      with 2 True show ?thesis by auto
    next
      case (Accepted ch addr)
      define hw1 where "hw1 = hw\<lparr>chans := (chans hw)(next_chan hw := ch), next_chan := Suc (next_chan hw)\<rparr>"
      obtain ws1 hw2 where r1: "register_one cs ws hw1 (next_chan hw) addr = (ws1, hw2)"
        by force
      have inv: "map w_rank ws1 = map int [1..<Suc (length ws1)]"
        using register_one_cases [OF r1] "2.prems"(2) by auto
      have "register_workers cs evs ws1 hw2 = (st, ws', hw')"
        using "2.prems"(1) True Accepted r1 by (simp add: hw1_def Let_def)
      with "2.IH" [OF True Accepted refl, of hw1 ws1 hw2] r1 inv show ?thesis
        by (simp add: hw1_def)
    qed
  qed
qed

text \<open>
  C3 at a failing input. A cluster of two; the one connection sends a valid \<open>register\<close>
  and the write of the \<open>registered\<close> reply fails. The worker has been appended before
  the reply is sent, so the handler closes the channel but the rank 1 stays taken:
  registration is complete with a worker whose channel is closed and to whom nothing
  was sent.
\<close>

theorem registration_send_failure_consumes_rank:
  "(case register_workers 2
          [Accepted ((open_channel
                        [RxLine (JObj [(''type'', JStr ''register''), (''hostname'', JStr ''gpu-b''),
                                       (''advertised_ip'', JStr ''10.0.0.2''),
                                       (''gpu_count'', JInt 8)])])
                       \<lparr>tx_script := [TxFail ''Broken pipe'']\<rparr>) ''10.0.0.2'']
          [] (quiet_host [] []) of
      (st, workers, hw) \<Rightarrow>
        st = Registered
      \<and> workers = [\<lparr>w_rank = 1, w_hostname = ''gpu-b'', advertised_ip = ''10.0.0.2'',
                     peer_ip = ''10.0.0.2'', gpu_count = 8, w_channel = 0\<rparr>]
      \<and> closed (chans hw 0) \<and> outbox (chans hw 0) = [])"
  by (simp add: register_one_def chan_recv_def chan_send_def chan_close_def
      JsonChannel_recv_def JsonChannel_send_def JsonChannel_close_def settimeout_def
      quiet_host_def open_channel_def plain_machine_def dict_get_or_def str_or_def Let_def)

subsection \<open>Collecting the results of the workers\<close>

lemma synthetic_in_range:
  assumes "\<bar>of_int (cs * (cs - 1)) / 2 :: real\<bar> < dbl_overflow"
  shows "synthetic_result w cs msg = Inr (failed_row w cs msg)"
  using assms by (simp add: synthetic_result_def py_truediv_def ebind_def failed_row_def)

lemma collect_one_eq:
  assumes "\<bar>of_int (cs * (cs - 1)) / 2 :: real\<bar> < dbl_overflow"
  shows "collect_one hw w cs tmo
           = (Inr (row_of_connection (py_repr (host hw)) (chans hw (w_channel w)) w cs tmo),
              hw\<lparr>chans := (chans hw)(w_channel w :=
                     snd (JsonChannel_recv (chans hw (w_channel w)) (Some (of_int (tmo + 90)))))\<rparr>)"
proof -
  obtain r ch where rc: "JsonChannel_recv (chans hw (w_channel w)) (Some (of_int (tmo + 90))) = (r, ch)"
    by force
  show ?thesis
  proof (cases r)
    case (Inl e)
    with rc show ?thesis
      by (simp add: collect_one_def chan_recv_def row_of_connection_def ebind_def
          synthetic_in_range [OF assms])
  next
    case (Inr v)
    with rc show ?thesis
      by (cases v)
         (simp_all add: collect_one_def chan_recv_def row_of_connection_def ebind_def
            synthetic_in_range [OF assms] Let_def)
  qed
qed

lemma collect_results_rows:
  assumes "distinct (map w_channel workers)"
    and "\<bar>of_int (cs * (cs - 1)) / 2 :: real\<bar> < dbl_overflow"
  shows "\<exists>rows hw'. collect_results hw workers cs tmo = (Inr rows, hw')
           \<and> length rows = length workers
           \<and> (\<forall>i < length workers.
                 rows ! i = row_of_connection (py_repr (host hw))
                              (chans hw (w_channel (workers ! i))) (workers ! i) cs tmo)"
  using assms(1)
proof (induction workers arbitrary: hw)
  case Nil
  then show ?case by simp
next
  case (Cons w ws)
  define hw1 where "hw1 = hw\<lparr>chans := (chans hw)(w_channel w :=
                     snd (JsonChannel_recv (chans hw (w_channel w)) (Some (of_int (tmo + 90)))))\<rparr>"
  have one: "collect_one hw w cs tmo
               = (Inr (row_of_connection (py_repr (host hw)) (chans hw (w_channel w)) w cs tmo), hw1)"
    unfolding hw1_def by (rule collect_one_eq [OF assms(2)])
  from Cons.prems have d: "distinct (map w_channel ws)" and nin: "w_channel w \<notin> w_channel ` set ws"
    by simp_all
  from Cons.IH [OF d, of hw1] obtain rows hw' where
    rest: "collect_results hw1 ws cs tmo = (Inr rows, hw')"
    and len: "length rows = length ws"
    and each: "\<forall>i < length ws. rows ! i = row_of_connection (py_repr (host hw1))
                              (chans hw1 (w_channel (ws ! i))) (ws ! i) cs tmo"
    by blast
  have same: "\<forall>i < length ws. chans hw1 (w_channel (ws ! i)) = chans hw (w_channel (ws ! i))"
  proof (intro allI impI)
    fix i assume "i < length ws"
    then have "w_channel (ws ! i) \<in> w_channel ` set ws" by simp
    with nin have "w_channel (ws ! i) \<noteq> w_channel w" by metis
    then show "chans hw1 (w_channel (ws ! i)) = chans hw (w_channel (ws ! i))"
      by (simp add: hw1_def)
  qed
  have host: "host hw1 = host hw" by (simp add: hw1_def)
  show ?case
  proof (intro exI conjI allI impI)
    show "collect_results hw (w # ws) cs tmo
            = (Inr (row_of_connection (py_repr (host hw)) (chans hw (w_channel w)) w cs tmo # rows), hw')"
      by (simp add: one rest)
    show "length (row_of_connection (py_repr (host hw)) (chans hw (w_channel w)) w cs tmo # rows)
            = length (w # ws)"
      by (simp add: len)
  next
    fix i assume "i < length (w # ws)"
    then show "(row_of_connection (py_repr (host hw)) (chans hw (w_channel w)) w cs tmo # rows) ! i
            = row_of_connection (py_repr (host hw))
                (chans hw (w_channel ((w # ws) ! i))) ((w # ws) ! i) cs tmo"
      using each same host by (cases i) auto
  qed
qed


text \<open>Sorting by rank, when no key raises, keeps the results and their number.\<close>

lemma rank_keys_items: "rank_keys rd items = Inr keyed \<Longrightarrow> map snd keyed = items"
  by (induction items arbitrary: keyed) (auto simp: ebind_def split: sum.splits)

lemma sort_by_rank_same:
  assumes "sort_by_rank rd items = Inr sorted_items"
  shows "length sorted_items = length items" and "set sorted_items = set items"
proof -
  from assms obtain keyed where k: "rank_keys rd items = Inr keyed"
    and s: "sorted_items = map snd (sort_key fst keyed)"
    by (auto simp: sort_by_rank_def ebind_def split: sum.splits)
  have "length sorted_items = length keyed" using s by simp
  also have "\<dots> = length items" using rank_keys_items [OF k] by (metis length_map)
  finally show "length sorted_items = length items" .
  have "set sorted_items = snd ` set keyed" using s by simp
  also have "\<dots> = set items" using rank_keys_items [OF k] by (metis set_map)
  finally show "set sorted_items = set items" .
qed

text \<open>
  C2, as the code has it. For workers on distinct connections the loop produces exactly
  one row per worker, in the order of the workers, and the row of a worker is the one
  its own connection decides (\<open>row_of_connection\<close>): the reply itself when its type is
  \<open>nccl_result\<close>, whatever rank it claims, and otherwise a failed result with
  \<open>ok = False\<close>, \<open>sum = None\<close>, the stored rank and host name, the expected sum
  \<open>cluster_size \<sqdot> (cluster_size - 1) / 2\<close> and an error text. With the host's own result
  these are \<open>cluster_size\<close> results, and whenever sorting them by rank returns, the
  report has exactly these results as its \<open>cluster_size\<close> rows.
  The bound says that the expected sum is a finite double, which holds whenever the
  host's own test has returned.
\<close>

theorem one_row_per_worker:
  assumes "distinct (map w_channel workers)"
    and "\<bar>of_int (cs * (cs - 1)) / 2 :: real\<bar> < dbl_overflow"
  shows "\<exists>rows hw'. collect_results hw workers cs tmo = (Inr rows, hw')
           \<and> length rows = length workers
           \<and> (\<forall>i < length workers.
                 rows ! i = row_of_connection (py_repr (host hw))
                              (chans hw (w_channel (workers ! i))) (workers ! i) cs tmo)
           \<and> (\<forall>local_result all_results.
                 int (length workers) = cs - 1
                 \<and> sort_by_rank (str_to_int (host hw)) (local_result # rows) = Inr all_results
               \<longrightarrow> int (length (map nccl_row all_results)) = cs
                 \<and> set all_results = set (local_result # rows))"
proof -
  from collect_results_rows [OF assms, of hw tmo] obtain rows hw' where
    c: "collect_results hw workers cs tmo = (Inr rows, hw')"
    and l: "length rows = length workers"
    and r: "\<forall>i < length workers.
        rows ! i = row_of_connection (py_repr (host hw))
                     (chans hw (w_channel (workers ! i))) (workers ! i) cs tmo"
    by blast
  have "\<forall>local_result all_results.
          int (length workers) = cs - 1
          \<and> sort_by_rank (str_to_int (host hw)) (local_result # rows) = Inr all_results
        \<longrightarrow> int (length (map nccl_row all_results)) = cs
          \<and> set all_results = set (local_result # rows)"
  proof (intro allI impI, elim conjE)
    fix local_result all_results
    assume n: "int (length workers) = cs - 1"
      and so: "sort_by_rank (str_to_int (host hw)) (local_result # rows) = Inr all_results"
    from sort_by_rank_same [OF so] l n
    show "int (length (map nccl_row all_results)) = cs
            \<and> set all_results = set (local_result # rows)"
      by simp
  qed
  with c l r show ?thesis by blast
qed

theorem one_row_per_worker_witness:
  "distinct (map w_channel
      [\<lparr>w_rank = 1, w_hostname = ''gpu-b'', advertised_ip = ''10.0.0.2'',
        peer_ip = ''10.0.0.2'', gpu_count = 8, w_channel = 0\<rparr>,
       \<lparr>w_rank = 2, w_hostname = ''gpu-c'', advertised_ip = ''10.0.0.3'',
        peer_ip = ''10.0.0.3'', gpu_count = 8, w_channel = 1\<rparr>])
   \<and> \<bar>of_int (3 * (3 - 1)) / 2 :: real\<bar> < dbl_overflow
   \<and> fst (collect_results
        ((quiet_host [] [])\<lparr>chans := (\<lambda>c. open_channel
            (if c = 0 then [RxLine (JObj [(''type'', JStr ''nccl_result''), (''ok'', JBool True),
                                          (''rank'', JInt 7)])]
             else []))\<rparr>)
        [\<lparr>w_rank = 1, w_hostname = ''gpu-b'', advertised_ip = ''10.0.0.2'',
          peer_ip = ''10.0.0.2'', gpu_count = 8, w_channel = 0\<rparr>,
         \<lparr>w_rank = 2, w_hostname = ''gpu-c'', advertised_ip = ''10.0.0.3'',
          peer_ip = ''10.0.0.3'', gpu_count = 8, w_channel = 1\<rparr>] 3 180)
     = Inr [[(''type'', JStr ''nccl_result''), (''ok'', JBool True), (''rank'', JInt 7)],
            [(''ok'', JBool False), (''rank'', JInt 2), (''world_size'', JInt 3),
             (''hostname'', JStr ''gpu-c''), (''sum'', JNull), (''expected_sum'', JFloat 3),
             (''elapsed_seconds'', JFloat 0),
             (''error'', JStr (''recv failed: ''
                @ exn_repr (EOFError ''peer closed connection'')))]]"
  using one_row_per_worker
    [of "[\<lparr>w_rank = 1, w_hostname = ''gpu-b'', advertised_ip = ''10.0.0.2'',
          peer_ip = ''10.0.0.2'', gpu_count = 8, w_channel = 0\<rparr>,
         \<lparr>w_rank = 2, w_hostname = ''gpu-c'', advertised_ip = ''10.0.0.3'',
          peer_ip = ''10.0.0.3'', gpu_count = 8, w_channel = 1\<rparr>]" 3
        "(quiet_host [] [])\<lparr>chans := (\<lambda>c. open_channel
            (if c = 0 then [RxLine (JObj [(''type'', JStr ''nccl_result''), (''ok'', JBool True),
                                          (''rank'', JInt 7)])]
             else []))\<rparr>" 180]
  by (simp add: collect_one_def chan_recv_def JsonChannel_recv_def settimeout_def
      quiet_host_def open_channel_def plain_machine_def dict_get_or_def Let_def ebind_def
      synthetic_result_def py_truediv_def dbl_overflow_def)

subsection \<open>The mesh report\<close>

text \<open>
  When both directions pass with a throughput other than zero, the row shows both
  figures, their mean and \<open>PASS\<close>; a row is \<open>PASS\<close> exactly when both directions are
  \<open>ok\<close>; and when the second direction fails the first is still shown, the status is
  \<open>FAIL\<close> and the detail names the failing direction with its error.
\<close>

lemma mesh_row_both_pass:
  assumes "a_to_b = [(''ok'', JBool True), (''bps'', JFloat x), (''error'', JStr [])]"
    and "b_to_a = [(''ok'', JBool True), (''bps'', JFloat y), (''error'', JStr [])]"
    and "x \<noteq> 0" and "y \<noteq> 0"
  shows "\<exists>row. mesh_row mc node_a node_b a_to_b b_to_a = Inr row
           \<and> row_a_to_b row = Some (x / 10 ^ 9) \<and> row_b_to_a row = Some (y / 10 ^ 9)
           \<and> row_avg row = Some ((x / 10 ^ 9 + y / 10 ^ 9) / 2)
           \<and> row_status row = ''PASS''"
  using assms by (simp add: mesh_row_def gbps_of_def ebind_def dict_get_def Let_def)

lemma mesh_row_status:
  assumes "mesh_row mc node_a node_b a_to_b b_to_a = Inr row"
  shows "row_status row = ''PASS''
           \<longleftrightarrow> py_truthy (dict_get a_to_b ''ok'') \<and> py_truthy (dict_get b_to_a ''ok'')"
    and "row_status row = ''PASS'' \<or> row_status row = ''FAIL''"
  using assms
  by (auto simp: mesh_row_def ebind_def Let_def split: sum.splits if_splits)

lemma mesh_row_second_fails:
  assumes "a_to_b = [(''ok'', JBool True), (''bps'', JFloat x), (''error'', JStr [])]"
    and "b_to_a = [(''ok'', JBool False), (''bps'', JNull), (''error'', JStr msg)]"
    and "x \<noteq> 0"
  shows "\<exists>row. mesh_row mc node_a node_b a_to_b b_to_a = Inr row
           \<and> row_a_to_b row = Some (x / 10 ^ 9) \<and> row_b_to_a row = None
           \<and> row_status row = ''FAIL''
           \<and> row_detail row = str_strip mc (''B->A: '' @ msg)"
  using assms by (simp add: mesh_row_def gbps_of_def ebind_def dict_get_def dict_get_or_def Let_def)

text \<open>
  C8 at a failing input. Both directions of the pair succeed; the first measured
  0 bit/s, the second 10 Gbit/s. The verdict of the first direction is \<open>ok\<close> with \<open>bps = 0.0\<close>,
  but the row tests \<open>bps\<close> for truth, so the first figure is dropped: the row shows \<open>N/A\<close>
  for it and an average of 10, not the mean 5 of the two figures, under status \<open>PASS\<close>.
\<close>

theorem zero_throughput_dropped_from_average:
  "direction_verdict (py_repr plain_machine)
      [(''ok'', JBool True), (''bps'', JFloat 0), (''error'', JStr [])]
      [(''ok'', JBool True), (''returncode'', JInt 0), (''stdout'', JStr []), (''stderr'', JStr [])]
     = Inr [(''ok'', JBool True), (''bps'', JFloat 0), (''error'', JStr [])]
   \<and> mesh_row plain_machine host_node worker_node
       [(''ok'', JBool True), (''bps'', JFloat 0), (''error'', JStr [])]
       [(''ok'', JBool True), (''bps'', JFloat 10000000000), (''error'', JStr [])]
     = Inr \<lparr>row_pair = ''0-1'', row_node_a = ''gpu-a(10.0.0.1)'',
            row_node_b = ''gpu-b(10.0.0.2)'', row_a_to_b = None, row_b_to_a = Some 10,
            row_avg = Some 10, row_status = ''PASS'', row_detail = []\<rparr>"
  by (simp add: direction_verdict_def mesh_row_def gbps_of_def ebind_def dict_get_def Let_def
      plain_machine_def host_node_def worker_node_def int_dec_def nat_dec.simps digit_char_def)

subsection \<open>Passing probes\<close>

lemma direction_verdict_ok:
  assumes "direction_verdict rp client_res server_res = Inr res"
    and "py_truthy (dict_get res ''ok'')"
  shows "py_truthy (dict_get client_res ''ok'') \<and> py_truthy (dict_get server_res ''ok'')
         \<and> is_number (dict_get client_res ''bps'')
         \<and> res = [(''ok'', JBool True),
                   (''bps'', JFloat (number_value (dict_get client_res ''bps''))),
                   (''error'', JStr [])]"
proof -
  have fl: "\<And>v x. is_number v \<Longrightarrow> py_float v = Inr x \<Longrightarrow> x = number_value v"
    by (case_tac v) (auto simp: py_float_of_int_def split: if_splits)
  show ?thesis
    using assms
    by (auto simp: direction_verdict_def Let_def ebind_def dict_get_def
        split: if_splits sum.splits dest: fl)
qed

lemma passing_direction:
  assumes "run_iperf_direction hw client_node server_node mgr port d = (Inr res, hw', mgr')"
    and "py_truthy (dict_get res ''ok'')"
  shows "\<exists>start_res hw1 mgr1 client_res hw2 server_res.
           node_start_iperf_server hw server_node mgr port = (Inr start_res, hw1, mgr1)
         \<and> py_truthy (dict_get start_res ''ok'')
         \<and> node_run_iperf_client hw1 client_node (n_ip server_node) port d = (Inr client_res, hw2)
         \<and> py_truthy (dict_get client_res ''ok'')
         \<and> is_number (dict_get client_res ''bps'')
         \<and> node_wait_iperf_server hw2 server_node mgr1 port (d + 30) = (Inr server_res, hw', mgr')
         \<and> py_truthy (dict_get server_res ''ok'')
         \<and> res = [(''ok'', JBool True),
                   (''bps'', JFloat (number_value (dict_get client_res ''bps''))),
                   (''error'', JStr [])]"
proof -
  obtain r1 hw1 mgr1 where s1: "node_start_iperf_server hw server_node mgr port = (r1, hw1, mgr1)"
    by (metis prod_cases3)
  with assms obtain start_res where r1: "r1 = Inr start_res"
    by (cases r1) (auto simp: run_iperf_direction_def)
  have ok1: "py_truthy (dict_get start_res ''ok'')"
    using assms s1 r1 by (auto simp: run_iperf_direction_def dict_get_def split: if_splits)
  obtain r2 hw2 where s2: "node_run_iperf_client hw1 client_node (n_ip server_node) port d = (r2, hw2)"
    by force
  with assms s1 r1 ok1 obtain client_res where r2: "r2 = Inr client_res"
    by (cases r2) (auto simp: run_iperf_direction_def)
  obtain r3 hw3 mgr3 where
    s3: "node_wait_iperf_server hw2 server_node mgr1 port (d + 30) = (r3, hw3, mgr3)"
    by (metis prod_cases3)
  with assms s1 r1 ok1 s2 r2 obtain server_res where r3: "r3 = Inr server_res"
    by (cases r3) (auto simp: run_iperf_direction_def)
  have fin: "direction_verdict (py_repr (host hw3)) client_res server_res = Inr res"
    and eq: "hw3 = hw'" "mgr3 = mgr'"
    using assms(1) s1 r1 ok1 s2 r2 s3 r3 by (auto simp: run_iperf_direction_def)
  note v = direction_verdict_ok [OF fin assms(2)]
  show ?thesis
    using s1 s2 s3 ok1 v unfolding r1 r2 r3 eq by blast
qed

lemma local_client_ok:
  assumes "run_iperf_client mc target port d = (Inr res, mc')"
    and "py_truthy (dict_get res ''ok'')"
  shows "\<exists>out err bps. run_command mc [''iperf3'', ''-c'', target, ''-p'', int_dec port,
                                        ''-t'', int_dec d, ''-J''] (d + 30) = ((0, out, err), mc')
           \<and> extract_iperf_bps mc' out = Inr (Some bps)
           \<and> res = [(''ok'', JBool True), (''bps'', JFloat bps), (''error'', JStr [])]"
  using assms
  by (auto simp: run_iperf_client_def dict_get_def split: prod.splits if_splits sum.splits option.splits)


lemma dict_get_or_null: "dict_get_or d k JNull = dict_get d k"
  by (simp add: dict_get_or_def dict_get_def)

lemma list_max_Max:
  assumes "xs \<noteq> []"
  shows "list_max xs = Max (set xs)"
proof (cases xs)
  case Nil
  with assms show ?thesis by simp
next
  case (Cons x ys)
  have "Max (set (x # ys)) = fold max ys x" by (rule Max.set_eq_fold)
  with Cons show ?thesis by simp
qed

lemma extract_aggregates:
  assumes "json_loads mc txt = Some (JObj doc)"
    and "dict_get_or doc ''end'' (JObj []) = JObj e"
    and "dict_get e ''sum_received'' = JObj rd" and "dict_get rd ''bits_per_second'' = JFloat r"
    and "dict_get e ''sum_sent'' = JObj sd" and "dict_get sd ''bits_per_second'' = JFloat s"
  shows "extract_iperf_bps mc txt = Inr (Some (max r s))"
  using assms
  by (simp add: extract_iperf_bps_def ebind_def dict_get_or_null Let_def)

lemma collect_streams:
  "collect stream_bps
     (map (\<lambda>(a, b). JObj [(''sender'', JObj [(''bits_per_second'', JFloat a)]),
                         (''receiver'', JObj [(''bits_per_second'', JFloat b)])]) xs)
   = Inr (concat (map (\<lambda>(a, b). [a, b]) xs))"
  by (induction xs) (auto simp: ebind_def dict_get_def Let_def)

lemma extract_streams:
  assumes "json_loads mc txt = Some (JObj doc)"
    and "dict_get_or doc ''end'' (JObj []) = JObj e"
    and "dict_get e ''sum_received'' = JNull" and "dict_get e ''sum_sent'' = JNull"
    and "dict_get e ''streams''
           = JArr (map (\<lambda>(a, b). JObj [(''sender'', JObj [(''bits_per_second'', JFloat a)]),
                                       (''receiver'', JObj [(''bits_per_second'', JFloat b)])]) xs)"
    and "xs \<noteq> []"
  shows "extract_iperf_bps mc txt = Inr (Some (Max (set (concat (map (\<lambda>(a, b). [a, b]) xs)))))"
proof -
  have ne: "concat (map (\<lambda>(a, b). [a, b]) xs) \<noteq> []"
    using assms(6) by (cases xs) auto
  show ?thesis
    using assms(1-5) ne
    by (simp add: extract_iperf_bps_def ebind_def dict_get_or_null collect_streams
        list_max_Max del: set_concat)
qed

text \<open>
  C4, as the code has it. A direction passes only if the listener started, the client
  answered \<open>ok\<close> with a number as \<open>bps\<close> (which is the figure of the result) and the wait
  for the listener answered \<open>ok\<close>. A client that runs on the node itself answers \<open>ok\<close>
  only if \<open>iperf3\<close> exited with status 0 and a figure was extracted from the report
  the client wrote. The extraction takes the larger of the \<open>sum_received\<close> and
  \<open>sum_sent\<close> figures when they are there, and the largest sender or receiver figure
  of the streams when neither is. A row is \<open>PASS\<close> exactly when both directions are \<open>ok\<close>.
\<close>

theorem passing_probe:
  "(run_iperf_direction hw client_node server_node mgr port d = (Inr res, hw', mgr')
      \<and> py_truthy (dict_get res ''ok'')
    \<longrightarrow> (\<exists>start_res hw1 mgr1 client_res hw2 server_res.
           node_start_iperf_server hw server_node mgr port = (Inr start_res, hw1, mgr1)
         \<and> py_truthy (dict_get start_res ''ok'')
         \<and> node_run_iperf_client hw1 client_node (n_ip server_node) port d = (Inr client_res, hw2)
         \<and> py_truthy (dict_get client_res ''ok'')
         \<and> is_number (dict_get client_res ''bps'')
         \<and> node_wait_iperf_server hw2 server_node mgr1 port (d + 30) = (Inr server_res, hw', mgr')
         \<and> py_truthy (dict_get server_res ''ok'')
         \<and> res = [(''ok'', JBool True),
                   (''bps'', JFloat (number_value (dict_get client_res ''bps''))),
                   (''error'', JStr [])]))
   \<and> (run_iperf_client mc target port d = (Inr cres, mc') \<and> py_truthy (dict_get cres ''ok'')
    \<longrightarrow> (\<exists>out err bps.
           run_command mc [''iperf3'', ''-c'', target, ''-p'', int_dec port,
                           ''-t'', int_dec d, ''-J''] (d + 30) = ((0, out, err), mc')
         \<and> extract_iperf_bps mc' out = Inr (Some bps)
         \<and> cres = [(''ok'', JBool True), (''bps'', JFloat bps), (''error'', JStr [])]))
   \<and> (json_loads mc txt = Some (JObj doc) \<and> dict_get_or doc ''end'' (JObj []) = JObj e
      \<and> dict_get e ''sum_received'' = JObj rd \<and> dict_get rd ''bits_per_second'' = JFloat r
      \<and> dict_get e ''sum_sent'' = JObj sd \<and> dict_get sd ''bits_per_second'' = JFloat s
    \<longrightarrow> extract_iperf_bps mc txt = Inr (Some (max r s)))
   \<and> (json_loads mc txt = Some (JObj doc) \<and> dict_get_or doc ''end'' (JObj []) = JObj e
      \<and> dict_get e ''sum_received'' = JNull \<and> dict_get e ''sum_sent'' = JNull
      \<and> dict_get e ''streams''
           = JArr (map (\<lambda>(a, b). JObj [(''sender'', JObj [(''bits_per_second'', JFloat a)]),
                                       (''receiver'', JObj [(''bits_per_second'', JFloat b)])]) xs)
      \<and> xs \<noteq> []
    \<longrightarrow> extract_iperf_bps mc txt = Inr (Some (Max (set (concat (map (\<lambda>(a, b). [a, b]) xs))))))
   \<and> (mesh_row mc node_a node_b a_to_b b_to_a = Inr row
    \<longrightarrow> (row_status row = ''PASS''
           \<longleftrightarrow> py_truthy (dict_get a_to_b ''ok'') \<and> py_truthy (dict_get b_to_a ''ok'')))"
  using passing_direction [of hw client_node server_node mgr "port" d res hw' mgr']
    local_client_ok [of mc "target" "port" d cres mc']
    extract_aggregates [of mc "txt" "doc" e rd r sd s]
    extract_streams [of mc "txt" "doc" e xs]
    mesh_row_status(1) [of mc node_a node_b a_to_b b_to_a row]
  by blast

theorem passing_probe_witness:
  "fst (run_iperf_direction
          (mesh_host [RxLine (JObj [(''type'', JStr ''iperf_server_start_result''),
                                    (''ok'', JBool True)]),
                      RxLine (JObj [(''type'', JStr ''iperf_server_wait_result''),
                                    (''ok'', JBool True), (''returncode'', JInt 0),
                                    (''stdout'', JStr []), (''stderr'', JStr [])])])
          host_node worker_node (IperfServerManager_init ''host'') 5301 5)
     = Inr [(''ok'', JBool True), (''bps'', JFloat 9400000000), (''error'', JStr [])]
   \<and> extract_iperf_bps iperf_machine ''report'' = Inr (Some 9400000000)"
  using passing_probe
    [of "mesh_host [RxLine (JObj [(''type'', JStr ''iperf_server_start_result''),
                                    (''ok'', JBool True)]),
                      RxLine (JObj [(''type'', JStr ''iperf_server_wait_result''),
                                    (''ok'', JBool True), (''returncode'', JInt 0),
                                    (''stdout'', JStr []), (''stderr'', JStr [])])]"
        host_node worker_node "IperfServerManager_init ''host''" 5301 5]
  by (simp add: run_iperf_direction_def node_start_iperf_server_def node_run_iperf_client_def
      node_wait_iperf_server_def remote_call_def send_and_expect_def chan_send_def chan_recv_def
      JsonChannel_send_def JsonChannel_recv_def settimeout_def direction_verdict_def
      run_iperf_client_def run_command_def extract_iperf_bps_def ebind_def dict_get_def
      dict_get_or_def Let_def mesh_host_def quiet_host_def open_channel_def iperf_machine_def
      iperf_report_def plain_machine_def host_node_def worker_node_def py_float_of_int_def)

text \<open>
  C4, as stated, fails in one point: the figure is not taken from the report of the
  sink. Here the host is the sink; its listener exits with status 0 and has written
  nothing, from which no figure can be extracted; the worker, as client, answers with
  its own figure, and the direction passes with it.
\<close>

theorem sink_report_not_consulted:
  "fst (run_iperf_direction
          (mesh_host [RxLine (JObj [(''type'', JStr ''iperf_client_result''),
                                    (''ok'', JBool True), (''bps'', JFloat 9400000000),
                                    (''error'', JStr [])])])
          worker_node host_node (IperfServerManager_init ''host'') 5301 5)
     = Inr [(''ok'', JBool True), (''bps'', JFloat 9400000000), (''error'', JStr [])]
   \<and> popen iperf_machine 0 [''iperf3'', ''-s'', ''-1'', ''-p'', ''5301'', ''-J'']
     = Inr \<lparr>exits_in_time = True, returncode = 0, proc_stdout = [], proc_stderr = []\<rparr>
   \<and> extract_iperf_bps iperf_machine [] = Inr None"
  by (simp add: run_iperf_direction_def node_start_iperf_server_def node_run_iperf_client_def
      node_wait_iperf_server_def remote_call_def send_and_expect_def chan_send_def chan_recv_def
      JsonChannel_send_def JsonChannel_recv_def settimeout_def direction_verdict_def
      IperfServerManager_start_def IperfServerManager_wait_def IperfServerManager_init_def
      extract_iperf_bps_def ebind_def dict_get_def
      dict_get_or_def Let_def mesh_host_def quiet_host_def open_channel_def iperf_machine_def
      iperf_report_def plain_machine_def host_node_def worker_node_def py_float_of_int_def
      int_dec_def nat_dec.simps digit_char_def)

subsection \<open>The status of the host session\<close>


























lemmas session_eval =
  run_host_mode_def host_phases_def register_one_def chan_recv_def chan_send_def chan_close_def
  JsonChannel_recv_def JsonChannel_send_def JsonChannel_close_def settimeout_def
  quiet_host_def open_channel_def plain_machine_def healthy_torch_def two_node_world_def
  register_msg_def worker_ok_reply_def dict_get_or_def dict_get_def str_or_def Let_def ebind_def
  run_nccl_distributed_def py_truediv_def nccl_try_def py_float_of_int_def dict_set_def
  dbl_overflow_def upto.simps collect_one_def synthetic_result_def sort_by_rank_def
  nccl_row_def exit_status_def run_mesh_iperf_tests_def mesh_nodes_def node_check_iperf_def
  check_iperf3_available_def run_command_def remote_call_def send_and_expect_def
  int_dec_def nat_dec.simps digit_char_def to_float32_small



text \<open>
  C2, as stated, fails in its last point: the report does not always come to be. The
  reply of the worker has the type \<open>nccl_result\<close> and is taken as it is; its rank is
  \<open>null\<close>, the key \<open>int(item.get("rank", 0))\<close> of the sort raises \<open>TypeError\<close>, nothing
  catches it, and the session ends without any table printed.
\<close>

theorem unsortable_reply_stops_report:
  "fst (run_host_mode null_rank_world 2 ''10.0.0.1'' 29500 29610 180 5)
     = Raises (TypeError
         ''int() argument must be a string, a bytes-like object or a real number'')
   \<and> printed (snd (run_host_mode null_rank_world 2 ''10.0.0.1'' 29500 29610 180 5)) = []"
  by (simp add: session_eval null_rank_world_def)

end
